theory Spec2Isabelle
  imports Main "HOL-Library.Word" "HOL-Library.Sublist"
begin

section \<open>The Python agent of mcp-cli: data model\<close>

text \<open>
  The agent (\<^verbatim>\<open>examples/agents/python-agent.py\<close>) drives an external command line tool
  through \<^verbatim>\<open>subprocess.run\<close> and works on the values \<^verbatim>\<open>json.loads\<close> returns. These
  values are dynamically typed, so the model carries them as one datatype and every
  operation of the source that can raise on a value of the wrong shape is a function into
  a sum type.

  Python integers are unbounded (\<open>int\<close>). A Python float is kept as its IEEE-754 bit
  pattern: the agent only tests floats for truth and prints them. A Python \<^verbatim>\<open>str\<close> is a
  \<open>string\<close>, one \<open>char\<close> per code point (code points up to U+00FF). A \<^verbatim>\<open>dict\<close> is an
  association list in insertion order, looked up with \<open>map_of\<close>; a \<^verbatim>\<open>dict\<close> has one
  value per key, so the lists that stand for one have no key twice.
\<close>

datatype json =
    JNull
  | JBool bool
  | JInt int
  | JFloat "64 word"
  | JStr string
  | JArr "json list"
  | JObj "(string \<times> json) list"

text \<open>The exceptions the agent raises itself or gets from the operations it uses.\<close>

datatype py_error =
    RuntimeError string
  | ValueError string
  | AttributeError
  | TypeError
  | KeyError json
  | IndexError

text \<open>What \<^verbatim>\<open>subprocess.run(..., capture_output=True, text=True, check=False)\<close> does: it
  returns a completed process, or raises (the argument is the text of the exception).\<close>

datatype proc_outcome =
    Completed (returncode: int) (stdout: string) (stderr: string)
  | RunRaised string

text \<open>
  What \<^verbatim>\<open>json.loads\<close> does with a text: it returns the parsed value, raises
  \<^verbatim>\<open>JSONDecodeError\<close>, or raises another exception (\<^verbatim>\<open>RecursionError\<close> on a text nested
  too deeply, \<^verbatim>\<open>ValueError\<close> on an integer with more digits than the interpreter's limit);
  the argument of \<open>LoadsRaised\<close> is the text of that exception.
\<close>

datatype loads_outcome =
    Loaded json
  | JSONDecodeError
  | LoadsRaised string

text \<open>
  The agent object and the library it runs on. \<open>mcp_command\<close> is the field of
  \<^verbatim>\<open>MCPAgent\<close>. \<open>subprocess_run\<close> is the operating system: given the commands run so
  far and the command to run, the outcome. \<open>json_loads\<close> is \<^verbatim>\<open>json.loads\<close>,
  \<open>json_dumps\<close> is \<^verbatim>\<open>json.dumps\<close>, and \<open>py_str\<close> is
  \<^verbatim>\<open>str()\<close> on a value that is not a string, as an f-string applies it.
\<close>

record pyenv =
  mcp_command :: string
  subprocess_run :: "string list \<Rightarrow> string \<Rightarrow> proc_outcome"
  json_loads :: "string \<Rightarrow> loads_outcome"
  json_dumps :: "json \<Rightarrow> string"
  py_str :: "json \<Rightarrow> string"

subsection \<open>Sequencing\<close>

definition ebind :: "py_error + 'a \<Rightarrow> ('a \<Rightarrow> py_error + 'b) \<Rightarrow> py_error + 'b" where
  "ebind m f = (case m of Inl e \<Rightarrow> Inl e | Inr x \<Rightarrow> f x)"

text \<open>A method of the agent takes the list of commands run so far and returns its result
  or exception with the extended list.\<close>

definition iobind ::
  "(string list \<Rightarrow> (py_error + 'a) \<times> string list) \<Rightarrow>
   ('a \<Rightarrow> string list \<Rightarrow> (py_error + 'b) \<times> string list) \<Rightarrow>
   string list \<Rightarrow> (py_error + 'b) \<times> string list" where
  "iobind m f calls =
     (case m calls of (Inl e, calls') \<Rightarrow> (Inl e, calls') | (Inr x, calls') \<Rightarrow> f x calls')"

definition lift :: "py_error + 'a \<Rightarrow> string list \<Rightarrow> (py_error + 'a) \<times> string list" where
  "lift m calls = (m, calls)"

subsection \<open>Python operations on values\<close>

definition DQ :: char where
  "DQ = CHR 0x22"

definition SQ :: char where
  "SQ = CHR 0x27"

definition BSL :: char where
  "BSL = CHR 0x5C"

text \<open>Truth value testing: \<^verbatim>\<open>None\<close>, \<^verbatim>\<open>False\<close>, zero and empty containers are false.\<close>

fun py_truthy :: "json \<Rightarrow> bool" where
  "py_truthy JNull = False"
| "py_truthy (JBool b) = b"
| "py_truthy (JInt n) = (n \<noteq> 0)"
| "py_truthy (JFloat w) = (w \<noteq> 0 \<and> w \<noteq> 0x8000000000000000)"
| "py_truthy (JStr s) = (s \<noteq> [])"
| "py_truthy (JArr xs) = (xs \<noteq> [])"
| "py_truthy (JObj kvs) = (kvs \<noteq> [])"

text \<open>\<^verbatim>\<open>x.get(key, default)\<close>: only a dict has the method.\<close>

fun py_get :: "json \<Rightarrow> string \<Rightarrow> json \<Rightarrow> py_error + json" where
  "py_get (JObj kvs) key dflt = Inr (case map_of kvs key of None \<Rightarrow> dflt | Some v \<Rightarrow> v)"
| "py_get _ key dflt = Inl AttributeError"

text \<open>\<^verbatim>\<open>x["key"]\<close>: \<^verbatim>\<open>KeyError\<close> on a dict without the key, \<^verbatim>\<open>TypeError\<close> on anything
  that is not a dict.\<close>

fun py_getitem :: "json \<Rightarrow> string \<Rightarrow> py_error + json" where
  "py_getitem (JObj kvs) key =
     (case map_of kvs key of None \<Rightarrow> Inl (KeyError (JStr key)) | Some v \<Rightarrow> Inr v)"
| "py_getitem _ key = Inl TypeError"

text \<open>\<^verbatim>\<open>x[0]\<close>: the first element of a list, the first character of a string,
  \<^verbatim>\<open>KeyError\<close> on a dict (its keys are strings).\<close>

fun py_getitem0 :: "json \<Rightarrow> py_error + json" where
  "py_getitem0 (JArr []) = Inl IndexError"
| "py_getitem0 (JArr (x # xs)) = Inr x"
| "py_getitem0 (JStr []) = Inl IndexError"
| "py_getitem0 (JStr (c # cs)) = Inr (JStr [c])"
| "py_getitem0 (JObj kvs) = Inl (KeyError (JInt 0))"
| "py_getitem0 _ = Inl TypeError"

text \<open>\<^verbatim>\<open>len(x)\<close>.\<close>

fun py_len :: "json \<Rightarrow> py_error + nat" where
  "py_len (JStr s) = Inr (length s)"
| "py_len (JArr xs) = Inr (length xs)"
| "py_len (JObj kvs) = Inr (length kvs)"
| "py_len _ = Inl TypeError"

text \<open>An f-string field \<^verbatim>\<open>{x}\<close>: a string is inserted as it is.\<close>

definition py_format :: "pyenv \<Rightarrow> json \<Rightarrow> string" where
  "py_format env v = (case v of JStr s \<Rightarrow> s | _ \<Rightarrow> py_str env v)"

text \<open>The elements \<^verbatim>\<open>" ".join(x)\<close> iterates over: the elements of a list, the characters
  of a string, the keys of a dict. Each must be a string.\<close>

fun the_strs :: "json list \<Rightarrow> py_error + string list" where
  "the_strs [] = Inr []"
| "the_strs (JStr s # xs) = ebind (the_strs xs) (\<lambda>ss. Inr (s # ss))"
| "the_strs (_ # xs) = Inl TypeError"

fun py_iter_strs :: "json \<Rightarrow> py_error + string list" where
  "py_iter_strs (JArr xs) = the_strs xs"
| "py_iter_strs (JStr s) = Inr (map (\<lambda>c. [c]) s)"
| "py_iter_strs (JObj kvs) = Inr (map fst kvs)"
| "py_iter_strs _ = Inl TypeError"

fun join_sp :: "string list \<Rightarrow> string" where
  "join_sp [] = []"
| "join_sp [s] = s"
| "join_sp (s # ss) = s @ '' '' @ join_sp ss"

text \<open>\<^verbatim>\<open>s.replace('"', '\\"')\<close>: a backslash before every double quote.\<close>

fun escape_quotes :: "string \<Rightarrow> string" where
  "escape_quotes [] = []"
| "escape_quotes (c # cs) = (if c = DQ then BSL # DQ # escape_quotes cs else c # escape_quotes cs)"

subsection \<open>The two regular expressions of the agent\<close>

text \<open>
  \<^verbatim>\<open>re.search\<close> returns a match object or \<^verbatim>\<open>None\<close>; a match object is kept as the list
  of its groups, group 0 (the whole match) first. \<^verbatim>\<open>m.group(i)\<close> raises \<^verbatim>\<open>IndexError\<close>
  when there is no such group.
\<close>

datatype re_match = Match "string list"

fun py_group :: "re_match \<Rightarrow> nat \<Rightarrow> py_error + string" where
  "py_group (Match gs) i = (if i < length gs then Inr (gs ! i) else Inl IndexError)"

text \<open>The class \<^verbatim>\<open>\s\<close> of a \<^verbatim>\<open>str\<close> pattern, on the code points up to U+00FF: tab to
  carriage return, the separators U+001C to U+001F, space, U+0085 and U+00A0.\<close>

definition is_space :: "char \<Rightarrow> bool" where
  "is_space c =
     (let n = (of_char c :: nat)
      in (9 \<le> n \<and> n \<le> 13) \<or> (28 \<le> n \<and> n \<le> 32) \<or> n = 133 \<or> n = 160)"

definition is_quote :: "char \<Rightarrow> bool" where
  "is_quote c = (c = DQ \<or> c = SQ)"

text \<open>
  \<^verbatim>\<open>https?://[^\s]+\<close> tried at the start of \<open>s\<close>. The optional \<^verbatim>\<open>s\<close> is greedy, and the
  two alternatives exclude each other (the fifth character is \<^verbatim>\<open>s\<close> or \<^verbatim>\<open>:\<close>); the greedy
  \<^verbatim>\<open>[^\s]+\<close> takes the longest run of characters that are not white space, at least one.
\<close>

definition url_rest :: "nat \<Rightarrow> string \<Rightarrow> string" where
  "url_rest n s = takeWhile (\<lambda>c. \<not> is_space c) (drop n s)"

definition match_url_at :: "string \<Rightarrow> re_match option" where
  "match_url_at s =
     (if take 8 s = ''https://'' \<and> url_rest 8 s \<noteq> [] then Some (Match [''https://'' @ url_rest 8 s])
      else if take 7 s = ''http://'' \<and> url_rest 7 s \<noteq> [] then Some (Match [''http://'' @ url_rest 7 s])
      else None)"

text \<open>\<^verbatim>\<open>re.search(r"https?://[^\s]+", task)\<close>: the match at the leftmost position that has one.\<close>

fun re_search_url :: "string \<Rightarrow> re_match option" where
  "re_search_url [] = None"
| "re_search_url (c # cs) =
     (case match_url_at (c # cs) of Some m \<Rightarrow> Some m | None \<Rightarrow> re_search_url cs)"

text \<open>
  \<^verbatim>\<open>["\']([^"\']+)["\']\<close> tried at the start of \<open>s\<close>: a quote, the longest run of
  characters that are not quotes (at least one: this is group 1), and a quote. The run is
  followed by a quote or by the end of the text, and a shorter run is followed by a
  character that is not a quote, so backtracking finds nothing else.
\<close>

fun match_quoted_at :: "string \<Rightarrow> re_match option" where
  "match_quoted_at [] = None"
| "match_quoted_at (c # cs) =
     (let body = takeWhile (\<lambda>x. \<not> is_quote x) cs; rest = dropWhile (\<lambda>x. \<not> is_quote x) cs
      in if is_quote c \<and> body \<noteq> [] \<and> rest \<noteq> []
         then Some (Match [c # body @ [hd rest], body])
         else None)"

text \<open>\<^verbatim>\<open>re.search(r'["\']([^"\']+)["\']', task)\<close>.\<close>

fun re_search_quoted :: "string \<Rightarrow> re_match option" where
  "re_search_quoted [] = None"
| "re_search_quoted (c # cs) =
     (case match_quoted_at (c # cs) of Some m \<Rightarrow> Some m | None \<Rightarrow> re_search_quoted cs)"

section \<open>The agent\<close>

subsection \<open>\<^verbatim>\<open>MCPAgent._exec_mcp\<close>\<close>

text \<open>
  The command line is the agent's command, a space and the phase's command. The return
  code and the captured error stream play no part in the result: the captured output is
  parsed whatever they are. \<^verbatim>\<open>JSONDecodeError\<close> becomes a \<^verbatim>\<open>ValueError\<close> with the output
  in its text. Any other exception raised in the \<^verbatim>\<open>try\<close> block, by \<^verbatim>\<open>subprocess.run\<close> or
  by \<^verbatim>\<open>json.loads\<close>, is caught by \<^verbatim>\<open>except Exception\<close> and becomes a \<^verbatim>\<open>RuntimeError\<close> with
  the text of that exception.
\<close>

definition exec_mcp ::
  "pyenv \<Rightarrow> string \<Rightarrow> string list \<Rightarrow> (py_error + json) \<times> string list" where
  "exec_mcp env command calls =
     (let full_command = mcp_command env @ '' '' @ command
      in ((case subprocess_run env calls full_command of
             RunRaised msg \<Rightarrow> Inl (RuntimeError (''Failed to execute MCP command: '' @ msg))
           | Completed rc out err \<Rightarrow>
               (case json_loads env out of
                  Loaded v \<Rightarrow> Inr v
                | JSONDecodeError \<Rightarrow> Inl (ValueError (''Failed to parse MCP response: '' @ out))
                | LoadsRaised msg \<Rightarrow>
                    Inl (RuntimeError (''Failed to execute MCP command: '' @ msg)))),
          calls @ [full_command]))"

subsection \<open>The envelope\<close>

text \<open>
  Each phase repeats the same lines on the response:
  \<^verbatim>\<open>if not response.get("success"): error = response.get("error", {});
  raise RuntimeError(f"<label>{error.get('message', 'Unknown error')}")\<close>
  and later \<^verbatim>\<open>response.get("metadata", {}).get(<key>, "unknown")\<close> for a progress message.
\<close>

definition check_success :: "pyenv \<Rightarrow> string \<Rightarrow> json \<Rightarrow> py_error + unit" where
  "check_success env label response =
     ebind (py_get response ''success'' JNull) (\<lambda>ok.
       if \<not> py_truthy ok then
         ebind (py_get response ''error'' (JObj [])) (\<lambda>error.
         ebind (py_get error ''message'' (JStr ''Unknown error'')) (\<lambda>message.
         Inl (RuntimeError (label @ py_format env message))))
       else Inr ())"

definition get_metadata :: "json \<Rightarrow> string \<Rightarrow> py_error + json" where
  "get_metadata response key =
     ebind (py_get response ''metadata'' (JObj [])) (\<lambda>metadata.
       py_get metadata key (JStr ''unknown''))"

subsection \<open>\<^verbatim>\<open>MCPAgent.discover\<close>\<close>

text \<open>What \<^verbatim>\<open>discover\<close> does with the parsed response. The progress messages are not
  modelled, but the expressions they print are evaluated, in the order of the source,
  because they can raise.\<close>

definition discover_result :: "pyenv \<Rightarrow> json \<Rightarrow> py_error + json" where
  "discover_result env response =
     ebind (check_success env ''Discovery failed: '' response) (\<lambda>_.
     ebind (py_get response ''data'' (JObj [])) (\<lambda>result.
     ebind (py_get result ''matches'' (JArr [])) (\<lambda>matches.
     ebind (py_len matches) (\<lambda>_.
     ebind (py_get result ''suggested_batch'' JNull) (\<lambda>suggested.
     ebind (if py_truthy suggested then
              ebind (py_getitem result ''suggested_batch'') (\<lambda>batch.
              ebind (py_getitem batch ''server'') (\<lambda>_.
              ebind (py_getitem batch ''operations'') (\<lambda>operations.
              ebind (py_len operations) (\<lambda>_. Inr ()))))
            else Inr ()) (\<lambda>_.
     ebind (get_metadata response ''tokensEstimate'') (\<lambda>_.
     Inr result)))))))"

definition discover ::
  "pyenv \<Rightarrow> string \<Rightarrow> string list \<Rightarrow> (py_error + json) \<times> string list" where
  "discover env task =
     iobind (exec_mcp env (''discover '' @ [DQ] @ task @ [DQ])) (\<lambda>response.
     lift (discover_result env response))"

subsection \<open>\<^verbatim>\<open>MCPAgent.load_schemas\<close>\<close>

text \<open>\<^verbatim>\<open>schemas = data if isinstance(data, list) else [data]\<close>, where \<open>data\<close> is
  \<^verbatim>\<open>response.get("data")\<close>: \<^verbatim>\<open>None\<close> when the key is missing.\<close>

definition normalize_schemas :: "json \<Rightarrow> json list" where
  "normalize_schemas data = (case data of JArr xs \<Rightarrow> xs | _ \<Rightarrow> [data])"

definition load_schemas ::
  "pyenv \<Rightarrow> json \<Rightarrow> json \<Rightarrow> string list \<Rightarrow> (py_error + json list) \<times> string list" where
  "load_schemas env server tools =
     iobind (lift (py_len tools)) (\<lambda>_.
     iobind (lift (py_iter_strs tools)) (\<lambda>names.
     iobind (exec_mcp env (''tools schema '' @ py_format env server @ '' '' @ join_sp names))
       (\<lambda>response.
     lift (
       ebind (check_success env ''Schema loading failed: '' response) (\<lambda>_.
       ebind (py_get response ''data'' JNull) (\<lambda>data.
       ebind (get_metadata response ''tokensEstimate'') (\<lambda>_.
       Inr (normalize_schemas data))))))))"

subsection \<open>\<^verbatim>\<open>MCPAgent.exec_tool\<close> and \<^verbatim>\<open>MCPAgent.batch\<close>\<close>

definition exec_command :: "pyenv \<Rightarrow> json \<Rightarrow> json \<Rightarrow> json \<Rightarrow> string" where
  "exec_command env server tool args =
     ''tools exec '' @ py_format env server @ '' '' @ py_format env tool @ '' --args '' @
     [DQ] @ escape_quotes (json_dumps env args) @ [DQ]"

definition exec_tool ::
  "pyenv \<Rightarrow> json \<Rightarrow> json \<Rightarrow> json \<Rightarrow> string list \<Rightarrow> (py_error + json) \<times> string list" where
  "exec_tool env server tool args =
     iobind (exec_mcp env (exec_command env server tool args)) (\<lambda>response.
     lift (
       ebind (check_success env ''Execution failed: '' response) (\<lambda>_.
       ebind (get_metadata response ''executionTime'') (\<lambda>_.
       py_get response ''data'' JNull))))"

definition tx_flag :: "bool \<Rightarrow> string" where
  "tx_flag transactional = (if transactional then ''--transactional'' else [])"

definition batch_command :: "pyenv \<Rightarrow> json \<Rightarrow> json list \<Rightarrow> bool \<Rightarrow> string" where
  "batch_command env server operations transactional =
     ''tools batch '' @ py_format env server @ '' '' @ tx_flag transactional @
     '' --operations '' @ [DQ] @ escape_quotes (json_dumps env (JArr operations)) @ [DQ]"

definition batch ::
  "pyenv \<Rightarrow> json \<Rightarrow> json list \<Rightarrow> bool \<Rightarrow> string list \<Rightarrow> (py_error + json) \<times> string list" where
  "batch env server operations transactional =
     iobind (exec_mcp env (batch_command env server operations transactional)) (\<lambda>response.
     lift (
       ebind (check_success env ''Batch execution failed: '' response) (\<lambda>_.
       ebind (get_metadata response ''executionTime'') (\<lambda>_.
       py_get response ''data'' JNull))))"

subsection \<open>\<^verbatim>\<open>MCPAgent.infer_arguments\<close>\<close>

text \<open>The tool name is compared with three string literals; a value that is not a string
  is equal to none of them. The schema is a parameter the body never reads.\<close>

definition infer_arguments :: "json \<Rightarrow> json \<Rightarrow> string \<Rightarrow> py_error + json" where
  "infer_arguments tool_name schema task =
     (if tool_name = JStr ''browser_navigate'' then
        ebind (case re_search_url task of
                 Some url_match \<Rightarrow> py_group url_match 0
               | None \<Rightarrow> Inr ''https://example.com'') (\<lambda>url.
        Inr (JObj [(''url'', JStr url)]))
      else if tool_name = JStr ''browser_screenshot'' then
        Inr (JObj [(''filename'', JStr ''screenshot.png''), (''fullPage'', JBool True)])
      else if tool_name = JStr ''read_file'' then
        ebind (case re_search_quoted task of
                 Some path_match \<Rightarrow> py_group path_match 1
               | None \<Rightarrow> Inr ''README.md'') (\<lambda>path.
        Inr (JObj [(''path'', JStr path)]))
      else Inr (JObj []))"

subsection \<open>\<^verbatim>\<open>MCPAgent.execute_task\<close>\<close>

text \<open>\<^verbatim>\<open>next((s for s in schemas if s["name"] == tool_name), None)\<close>: the generator is
  lazy, so a schema after the first hit is never subscripted. The tool name is a string.\<close>

fun find_schema :: "json list \<Rightarrow> string \<Rightarrow> py_error + json" where
  "find_schema [] tool_name = Inr JNull"
| "find_schema (s # ss) tool_name =
     ebind (py_getitem s ''name'') (\<lambda>name.
       if name = JStr tool_name then Inr s else find_schema ss tool_name)"

text \<open>The loop \<^verbatim>\<open>for tool_name in operations\<close> that fills \<^verbatim>\<open>batch_ops\<close>.\<close>

fun build_batch_ops :: "json list \<Rightarrow> string list \<Rightarrow> string \<Rightarrow> py_error + json list" where
  "build_batch_ops schemas [] task = Inr []"
| "build_batch_ops schemas (tool_name # names) task =
     ebind (find_schema schemas tool_name) (\<lambda>schema.
     ebind (infer_arguments (JStr tool_name) schema task) (\<lambda>args.
     ebind (build_batch_ops schemas names task) (\<lambda>rest.
     Inr (JObj [(''tool'', JStr tool_name), (''args'', args)] # rest))))"

text \<open>
  The branch \<^verbatim>\<open>if suggested_batch:\<close>. The loop iterates over \<open>operations\<close> as
  \<^verbatim>\<open>" ".join\<close> did in \<^verbatim>\<open>load_schemas\<close>, so at this point its elements are strings.
  \<^verbatim>\<open>batch\<close> is called with two arguments: \<open>transactional\<close> has its default, \<^verbatim>\<open>False\<close>.
\<close>

definition batch_branch ::
  "pyenv \<Rightarrow> string \<Rightarrow> json \<Rightarrow> string list \<Rightarrow> (py_error + json) \<times> string list" where
  "batch_branch env task suggested_batch =
     iobind (lift (py_getitem suggested_batch ''server'')) (\<lambda>server.
     iobind (lift (py_getitem suggested_batch ''operations'')) (\<lambda>operations.
     iobind (lift (py_len operations)) (\<lambda>_.
     iobind (load_schemas env server operations) (\<lambda>schemas.
     iobind (lift (ebind (py_iter_strs operations) (\<lambda>names.
                   build_batch_ops schemas names task))) (\<lambda>batch_ops.
     batch env server batch_ops False)))))"

text \<open>The branch \<^verbatim>\<open>else:\<close>. \<^verbatim>\<open>top_match['confidence']\<close> is evaluated for a progress
  message; \<^verbatim>\<open>schemas[0]\<close> raises \<^verbatim>\<open>IndexError\<close> on an empty list.\<close>

definition single_branch ::
  "pyenv \<Rightarrow> string \<Rightarrow> json \<Rightarrow> string list \<Rightarrow> (py_error + json) \<times> string list" where
  "single_branch env task matches =
     iobind (lift (py_getitem0 matches)) (\<lambda>top_match.
     iobind (lift (py_getitem top_match ''confidence'')) (\<lambda>_.
     iobind (lift (py_getitem top_match ''server'')) (\<lambda>server.
     iobind (lift (py_getitem top_match ''tool'')) (\<lambda>tool.
     iobind (load_schemas env server (JArr [tool])) (\<lambda>schemas.
     iobind (lift (case schemas of [] \<Rightarrow> Inl IndexError | schema # _ \<Rightarrow> Inr schema)) (\<lambda>schema.
     iobind (lift (infer_arguments tool schema task)) (\<lambda>args.
     exec_tool env server tool args)))))))"

definition execute_task ::
  "pyenv \<Rightarrow> string \<Rightarrow> string list \<Rightarrow> (py_error + json) \<times> string list" where
  "execute_task env task =
     iobind (discover env task) (\<lambda>discovery.
     iobind (lift (py_get discovery ''matches'' (JArr []))) (\<lambda>matches.
     if \<not> py_truthy matches then
       lift (Inl (RuntimeError ''No matching tools found for the task''))
     else
       iobind (lift (py_get discovery ''suggested_batch'' JNull)) (\<lambda>suggested_batch.
       if py_truthy suggested_batch then batch_branch env task suggested_batch
       else single_branch env task matches)))"

subsection \<open>\<^verbatim>\<open>main\<close>\<close>

text \<open>The exit status of the process and the commands it ran. \<open>argv\<close> is \<^verbatim>\<open>sys.argv\<close>;
  the agent is built with the default command.\<close>

definition default_command :: string where
  "default_command = ''deno run --allow-all src/cli.ts''"

definition main :: "pyenv \<Rightarrow> string list \<Rightarrow> string list \<Rightarrow> int \<times> string list" where
  "main env argv calls =
     (if length argv < 2 then (1, calls)
      else (case execute_task (env\<lparr>mcp_command := default_command\<rparr>) (argv ! 1) calls of
              (Inl e, calls') \<Rightarrow> (1, calls')
            | (Inr result, calls') \<Rightarrow> (0, calls')))"

section \<open>Example environments\<close>

text \<open>
  A backend that answers the \<open>n\<close>-th command with the \<open>n\<close>-th text of a script, and the
  part of the Python library the examples need, as tables: what \<^verbatim>\<open>json.loads\<close> returns on
  the texts of the scripts (a text that is not in the table stands for one that is not
  JSON) and what \<^verbatim>\<open>json.dumps\<close> returns on the arguments the agent
  builds. The examples format strings only, so \<^verbatim>\<open>str()\<close> is listed for \<^verbatim>\<open>None\<close> and the
  two truth values.
\<close>

definition example_str :: "json \<Rightarrow> string" where
  "example_str v =
     (case v of JNull \<Rightarrow> ''None'' | JBool b \<Rightarrow> (if b then ''True'' else ''False'') | _ \<Rightarrow> [])"

definition table_loads :: "(string \<times> json) list \<Rightarrow> string \<Rightarrow> loads_outcome" where
  "table_loads loads_table s =
     (case map_of loads_table s of Some v \<Rightarrow> Loaded v | None \<Rightarrow> JSONDecodeError)"

definition scripted_env ::
  "string list \<Rightarrow> (string \<times> json) list \<Rightarrow> (json \<times> string) list \<Rightarrow> pyenv" where
  "scripted_env outs loads_table dumps_table =
     \<lparr> mcp_command = default_command,
       subprocess_run = (\<lambda>calls command.
         if length calls < length outs then Completed 0 (outs ! length calls) []
         else RunRaised ''[Errno 2] No such file or directory''),
       json_loads = table_loads loads_table,
       json_dumps = (\<lambda>v. case map_of dumps_table v of Some s \<Rightarrow> s | None \<Rightarrow> ''null''),
       py_str = example_str \<rparr>"

definition notes_task :: string where
  "notes_task = ''read the file '' @ [SQ] @ ''notes.txt'' @ [SQ]"

definition fs_match :: json where
  "fs_match =
     JObj [(''server'', JStr ''fs''), (''tool'', JStr ''read_file''),
           (''confidence'', JFloat 0x3FECCCCCCCCCCCCD)]"

definition browser_batch :: json where
  "browser_batch =
     JObj [(''server'', JStr ''browser''),
           (''operations'', JArr [JStr ''browser_navigate'', JStr ''browser_screenshot''])]"

definition discovery_fs_text :: string where
  \<open>discovery_fs_text =
     ''{"success": true, "data": {"matches": [{"server": "fs", "tool": "read_file", "confidence": 0.9}]}}''\<close>

definition discovery_fs :: json where
  "discovery_fs =
     JObj [(''success'', JBool True), (''data'', JObj [(''matches'', JArr [fs_match])])]"

definition discovery_none_text :: string where
  \<open>discovery_none_text = ''{"success": true, "data": {"matches": []}}''\<close>

definition discovery_none :: json where
  "discovery_none = JObj [(''success'', JBool True), (''data'', JObj [(''matches'', JArr [])])]"

definition discovery_batch_text :: string where
  \<open>discovery_batch_text =
     ''{"success": true, "data": {"matches": [{"server": "browser", "tool": "browser_navigate", "confidence": 0.9}], "suggested_batch": {"server": "browser", "operations": ["browser_navigate", "browser_screenshot"]}}}''\<close>

definition discovery_batch :: json where
  "discovery_batch =
     JObj [(''success'', JBool True),
           (''data'', JObj [(''matches'',
                              JArr [JObj [(''server'', JStr ''browser''),
                                          (''tool'', JStr ''browser_navigate''),
                                          (''confidence'', JFloat 0x3FECCCCCCCCCCCCD)]]),
                            (''suggested_batch'', browser_batch)])]"

definition discovery_batch_only_text :: string where
  \<open>discovery_batch_only_text =
     ''{"success": true, "data": {"matches": [], "suggested_batch": {"server": "browser", "operations": ["browser_navigate", "browser_screenshot"]}}}''\<close>

definition discovery_batch_only :: json where
  "discovery_batch_only =
     JObj [(''success'', JBool True),
           (''data'', JObj [(''matches'', JArr []), (''suggested_batch'', browser_batch)])]"

definition empty_batch :: json where
  "empty_batch = JObj [(''server'', JStr ''browser''), (''operations'', JArr [])]"

definition discovery_empty_batch_text :: string where
  \<open>discovery_empty_batch_text =
     ''{"success": true, "data": {"matches": [], "suggested_batch": {"server": "browser", "operations": []}}}''\<close>

definition discovery_empty_batch :: json where
  "discovery_empty_batch =
     JObj [(''success'', JBool True),
           (''data'', JObj [(''matches'', JArr []), (''suggested_batch'', empty_batch)])]"

definition schema_one_text :: string where
  \<open>schema_one_text = ''{"success": true, "data": {"name": "read_file", "parameters": {}}}''\<close>

definition read_file_schema :: json where
  "read_file_schema = JObj [(''name'', JStr ''read_file''), (''parameters'', JObj [])]"

definition schema_one :: json where
  "schema_one = JObj [(''success'', JBool True), (''data'', read_file_schema)]"

definition schema_empty_text :: string where
  \<open>schema_empty_text = ''{"success": true, "data": []}''\<close>

definition schema_empty :: json where
  "schema_empty = JObj [(''success'', JBool True), (''data'', JArr [])]"

definition schema_nodata_text :: string where
  \<open>schema_nodata_text = ''{"success": true}''\<close>

definition schema_nodata :: json where
  "schema_nodata = JObj [(''success'', JBool True)]"

definition schema_browser_text :: string where
  \<open>schema_browser_text = ''{"success": true, "data": [{"name": "browser_screenshot"}]}''\<close>

definition schema_browser :: json where
  "schema_browser =
     JObj [(''success'', JBool True),
           (''data'', JArr [JObj [(''name'', JStr ''browser_screenshot'')]])]"

definition exec_ok_text :: string where
  \<open>exec_ok_text = ''{"success": true, "data": "remember the milk"}''\<close>

definition exec_ok :: json where
  "exec_ok = JObj [(''success'', JBool True), (''data'', JStr ''remember the milk'')]"

definition exec_unreachable_text :: string where
  \<open>exec_unreachable_text = ''{"success": false, "error": {"message": "server unreachable"}}''\<close>

definition exec_unreachable :: json where
  "exec_unreachable =
     JObj [(''success'', JBool False),
           (''error'', JObj [(''message'', JStr ''server unreachable'')])]"

definition example_loads :: "(string \<times> json) list" where
  "example_loads =
     [(discovery_fs_text, discovery_fs), (discovery_none_text, discovery_none),
      (discovery_batch_text, discovery_batch), (discovery_batch_only_text, discovery_batch_only),
      (discovery_empty_batch_text, discovery_empty_batch),
      (schema_one_text, schema_one), (schema_empty_text, schema_empty),
      (schema_nodata_text, schema_nodata), (schema_browser_text, schema_browser),
      (exec_ok_text, exec_ok), (exec_unreachable_text, exec_unreachable)]"

definition notes_args :: json where
  "notes_args = JObj [(''path'', JStr ''notes.txt'')]"

definition notes_args_text :: string where
  \<open>notes_args_text = ''{"path": "notes.txt"}''\<close>

definition browser_ops :: "json list" where
  "browser_ops =
     [JObj [(''tool'', JStr ''browser_navigate''),
            (''args'', JObj [(''url'', JStr ''https://example.com'')])],
      JObj [(''tool'', JStr ''browser_screenshot''),
            (''args'', JObj [(''filename'', JStr ''screenshot.png''), (''fullPage'', JBool True)])]]"

definition browser_ops_text :: string where
  \<open>browser_ops_text =
     ''[{"tool": "browser_navigate", "args": {"url": "https://example.com"}}, {"tool": "browser_screenshot", "args": {"filename": "screenshot.png", "fullPage": true}}]''\<close>

definition example_dumps :: "(json \<times> string) list" where
  "example_dumps = [(notes_args, notes_args_text), (JArr browser_ops, browser_ops_text)]"

definition example_env :: "string list \<Rightarrow> pyenv" where
  "example_env outs = scripted_env outs example_loads example_dumps"

text \<open>A backend that always exits with status \<open>rc\<close> after writing \<open>out\<close> to its output
  and \<open>err\<close> to its error stream.\<close>

definition exit_env :: "int \<Rightarrow> string \<Rightarrow> string \<Rightarrow> pyenv" where
  "exit_env rc out err =
     (example_env [])\<lparr>subprocess_run := (\<lambda>calls command. Completed rc out err)\<rparr>"

text \<open>
  A backend that writes 2000 opening brackets and exits with status \<open>rc\<close>. The text is
  not JSON, but \<^verbatim>\<open>json.loads\<close> does not get as far as saying so: the nesting exceeds the
  interpreter's recursion limit and it raises \<^verbatim>\<open>RecursionError\<close>, whose text is the one
  below.
\<close>

definition deep_text :: string where
  "deep_text = replicate 2000 (CHR ''['')"

definition deep_env :: "int \<Rightarrow> pyenv" where
  "deep_env rc =
     (exit_env rc deep_text [])\<lparr>json_loads := (\<lambda>s.
        if s = deep_text
        then LoadsRaised
          ''maximum recursion depth exceeded while decoding a JSON array from a unicode string''
        else JSONDecodeError)\<rparr>"

section \<open>Properties\<close>

subsection \<open>Sequencing and the command log\<close>

lemma ebind_Inl [simp]: "ebind (Inl e) f = Inl e"
  by (simp add: ebind_def)

lemma ebind_Inr [simp]: "ebind (Inr x) f = f x"
  by (simp add: ebind_def)

lemma ebind_eq_Inr: "ebind m f = Inr y \<longleftrightarrow> (\<exists>x. m = Inr x \<and> f x = Inr y)"
  by (cases m) simp_all

lemma lift_apply [simp]: "lift m calls = (m, calls)"
  by (simp add: lift_def)

lemma iobind_lift_Inl [simp]: "iobind (lift (Inl e)) f calls = (Inl e, calls)"
  by (simp add: iobind_def)

lemma iobind_lift_Inr [simp]: "iobind (lift (Inr x)) f calls = f x calls"
  by (simp add: iobind_def)

lemma snd_iobind_lift: "snd (iobind m (\<lambda>x. lift (g x)) calls) = snd (m calls)"
  by (simp add: iobind_def split: prod.splits sum.splits)

lemma snd_exec_mcp:
  "snd (exec_mcp env command calls) = calls @ [mcp_command env @ '' '' @ command]"
  by (simp add: exec_mcp_def Let_def)

lemma discover_calls:
  "snd (discover env task calls) = calls @ [mcp_command env @ '' discover '' @ [DQ] @ task @ [DQ]]"
  by (simp add: discover_def snd_iobind_lift snd_exec_mcp)

lemma exec_tool_calls:
  "snd (exec_tool env server tool args calls) =
     calls @ [mcp_command env @ '' '' @ exec_command env server tool args]"
  by (simp add: exec_tool_def snd_iobind_lift snd_exec_mcp)

lemma batch_calls:
  "snd (batch env server operations transactional calls) =
     calls @ [mcp_command env @ '' '' @ batch_command env server operations transactional]"
  by (simp add: batch_def snd_iobind_lift snd_exec_mcp)

lemma load_schemas_calls:
  assumes "load_schemas env server tools calls = (Inr schemas, calls2)"
  shows "\<exists>names. py_iter_strs tools = Inr names \<and>
           calls2 = calls @ [mcp_command env @ '' tools schema '' @ py_format env server @
                               '' '' @ join_sp names]"
proof -
  from assms obtain n where n: "py_len tools = Inr n"
    by (cases "py_len tools") (simp_all add: load_schemas_def)
  from assms n obtain names where names: "py_iter_strs tools = Inr names"
    by (cases "py_iter_strs tools") (simp_all add: load_schemas_def)
  have "snd (load_schemas env server tools calls) =
          calls @ [mcp_command env @ '' tools schema '' @ py_format env server @
                     '' '' @ join_sp names]"
    using n names by (simp add: load_schemas_def snd_iobind_lift snd_exec_mcp)
  with assms names show ?thesis by simp
qed

subsection \<open>What a successful Discovery has checked\<close>

lemma discover_Inr:
  assumes "discover env task calls = (Inr discovery, calls1)"
  shows "\<exists>response. discover_result env response = Inr discovery"
  using assms by (auto simp: discover_def iobind_def split: prod.splits sum.splits)

lemma py_get_Inr: "py_get v key dflt = Inr x \<Longrightarrow> \<exists>kvs. v = JObj kvs"
  by (cases v) simp_all

lemma py_get_truthy_getitem:
  assumes "py_get v key JNull = Inr x" and "py_truthy x"
  shows "py_getitem v key = Inr x"
proof -
  from assms(1) obtain kvs where v: "v = JObj kvs"
    by (auto dest: py_get_Inr)
  with assms show ?thesis
    by (cases "map_of kvs key") auto
qed

lemma discover_result_batch:
  assumes "discover_result env response = Inr discovery"
    and "py_get discovery ''suggested_batch'' JNull = Inr suggested"
    and "py_truthy suggested"
  shows "\<exists>server operations n. py_getitem suggested ''server'' = Inr server \<and>
           py_getitem suggested ''operations'' = Inr operations \<and> py_len operations = Inr n"
proof -
  from assms(1) obtain result matches n0 sb u
    where r: "py_get response ''data'' (JObj []) = Inr result"
      and "py_get result ''matches'' (JArr []) = Inr matches"
      and "py_len matches = Inr n0"
      and sb: "py_get result ''suggested_batch'' JNull = Inr sb"
      and chk: "(if py_truthy sb then
              ebind (py_getitem result ''suggested_batch'') (\<lambda>batch.
              ebind (py_getitem batch ''server'') (\<lambda>_.
              ebind (py_getitem batch ''operations'') (\<lambda>operations.
              ebind (py_len operations) (\<lambda>_. Inr ()))))
            else Inr ()) = Inr u"
      and d: "discovery = result"
    unfolding discover_result_def ebind_eq_Inr by auto
  from d sb assms(2) have eq: "sb = suggested" by simp
  with sb assms(3) d have gi: "py_getitem result ''suggested_batch'' = Inr suggested"
    by (simp add: py_get_truthy_getitem)
  from chk eq assms(3) gi show ?thesis
    by (auto simp: ebind_eq_Inr)
qed

subsection \<open>The two strategies of \<^verbatim>\<open>execute_task\<close>\<close>

lemma execute_task_batch:
  assumes "discover env task calls = (Inr discovery, calls1)"
    and "py_get discovery ''matches'' (JArr []) = Inr matches"
    and "py_truthy matches"
    and "py_get discovery ''suggested_batch'' JNull = Inr suggested"
    and "py_truthy suggested"
  shows "\<exists>server operations.
           py_getitem suggested ''server'' = Inr server \<and>
           py_getitem suggested ''operations'' = Inr operations \<and>
           execute_task env task calls =
             (case load_schemas env server operations calls1 of
                (Inl e, calls2) \<Rightarrow> (Inl e, calls2)
              | (Inr schemas, calls2) \<Rightarrow>
                  (case ebind (py_iter_strs operations)
                          (\<lambda>names. build_batch_ops schemas names task) of
                     Inl e \<Rightarrow> (Inl e, calls2)
                   | Inr batch_ops \<Rightarrow> batch env server batch_ops False calls2))"
proof -
  from assms(1) obtain response where "discover_result env response = Inr discovery"
    by (auto dest: discover_Inr)
  from discover_result_batch [OF this assms(4,5)]
  obtain server operations n where s: "py_getitem suggested ''server'' = Inr server"
    and ops: "py_getitem suggested ''operations'' = Inr operations"
    and n: "py_len operations = Inr n"
    by blast
  have "execute_task env task calls = batch_branch env task suggested calls1"
    using assms by (simp add: execute_task_def iobind_def)
  also have "\<dots> = (case load_schemas env server operations calls1 of
                   (Inl e, calls2) \<Rightarrow> (Inl e, calls2)
                 | (Inr schemas, calls2) \<Rightarrow>
                     (case ebind (py_iter_strs operations)
                             (\<lambda>names. build_batch_ops schemas names task) of
                        Inl e \<Rightarrow> (Inl e, calls2)
                      | Inr batch_ops \<Rightarrow> batch env server batch_ops False calls2))"
    using s ops n by (simp add: batch_branch_def iobind_def split: prod.splits sum.splits)
  finally show ?thesis
    using s ops by blast
qed

lemma execute_task_single:
  assumes "discover env task calls = (Inr discovery, calls1)"
    and "py_get discovery ''matches'' (JArr []) = Inr (JArr (top_match # rest))"
    and "py_get discovery ''suggested_batch'' JNull = Inr suggested"
    and "\<not> py_truthy suggested"
    and "py_getitem top_match ''confidence'' = Inr confidence"
    and "py_getitem top_match ''server'' = Inr server"
    and "py_getitem top_match ''tool'' = Inr tool"
  shows "execute_task env task calls =
           (case load_schemas env server (JArr [tool]) calls1 of
              (Inl e, calls2) \<Rightarrow> (Inl e, calls2)
            | (Inr schemas, calls2) \<Rightarrow>
                (case schemas of
                   [] \<Rightarrow> (Inl IndexError, calls2)
                 | schema # _ \<Rightarrow>
                     (case infer_arguments tool schema task of
                        Inl e \<Rightarrow> (Inl e, calls2)
                      | Inr args \<Rightarrow> exec_tool env server tool args calls2)))"
proof -
  have "execute_task env task calls = single_branch env task (JArr (top_match # rest)) calls1"
    using assms(1-4) by (simp add: execute_task_def iobind_def)
  also have "\<dots> = (case load_schemas env server (JArr [tool]) calls1 of
                   (Inl e, calls2) \<Rightarrow> (Inl e, calls2)
                 | (Inr schemas, calls2) \<Rightarrow>
                     (case schemas of
                        [] \<Rightarrow> (Inl IndexError, calls2)
                      | schema # _ \<Rightarrow>
                          (case infer_arguments tool schema task of
                             Inl e \<Rightarrow> (Inl e, calls2)
                           | Inr args \<Rightarrow> exec_tool env server tool args calls2)))"
    using assms(5-7)
    by (simp add: single_branch_def iobind_def split: prod.splits sum.splits list.splits)
  finally show ?thesis .
qed

text \<open>
  Claim C1, as amended. When Discovery returned a result whose \<open>matches\<close> counts as true
  (a sequence that is not empty), the strategy follows the suggested batch alone. If the
  result holds a suggested batch (a value that counts as true, as every object with a
  server and operations does), the run loads the schemas of the batch's operations from
  the batch's server and, when that and the lookups succeed, ends in \<open>batch\<close> with
  \<open>transactional = False\<close>; a failure on the way is the run's failure. If it holds none,
  the run loads the schema of the tool of the match at index 0, whatever the confidences
  of the others, and ends in \<open>exec_tool\<close> on that match's server and tool.
\<close>

theorem strategy_selection:
  assumes "discover env task calls = (Inr discovery, calls1)"
    and "py_get discovery ''matches'' (JArr []) = Inr matches"
    and "py_truthy matches"
    and "py_get discovery ''suggested_batch'' JNull = Inr suggested"
  shows "(py_truthy suggested \<longrightarrow>
           (\<exists>server operations.
              py_getitem suggested ''server'' = Inr server \<and>
              py_getitem suggested ''operations'' = Inr operations \<and>
              execute_task env task calls =
                (case load_schemas env server operations calls1 of
                   (Inl e, calls2) \<Rightarrow> (Inl e, calls2)
                 | (Inr schemas, calls2) \<Rightarrow>
                     (case ebind (py_iter_strs operations)
                             (\<lambda>names. build_batch_ops schemas names task) of
                        Inl e \<Rightarrow> (Inl e, calls2)
                      | Inr batch_ops \<Rightarrow> batch env server batch_ops False calls2)))) \<and>
         (\<not> py_truthy suggested \<longrightarrow>
           (\<forall>top_match rest confidence server tool.
              matches = JArr (top_match # rest) \<and>
              py_getitem top_match ''confidence'' = Inr confidence \<and>
              py_getitem top_match ''server'' = Inr server \<and>
              py_getitem top_match ''tool'' = Inr tool \<longrightarrow>
              execute_task env task calls =
                (case load_schemas env server (JArr [tool]) calls1 of
                   (Inl e, calls2) \<Rightarrow> (Inl e, calls2)
                 | (Inr schemas, calls2) \<Rightarrow>
                     (case schemas of
                        [] \<Rightarrow> (Inl IndexError, calls2)
                      | schema # _ \<Rightarrow>
                          (case infer_arguments tool schema task of
                             Inl e \<Rightarrow> (Inl e, calls2)
                           | Inr args \<Rightarrow> exec_tool env server tool args calls2)))))"
  using execute_task_batch [OF assms(1-4)] execute_task_single [OF assms(1) _ assms(4)] assms(2)
  by blast

subsection \<open>The example environments\<close>

lemmas example_texts =
  discovery_fs_text_def discovery_none_text_def discovery_batch_text_def
  discovery_batch_only_text_def discovery_empty_batch_text_def schema_one_text_def
  schema_empty_text_def
  schema_nodata_text_def schema_browser_text_def exec_ok_text_def exec_unreachable_text_def

lemma example_loads_simps:
  "map_of example_loads discovery_fs_text = Some discovery_fs"
  "map_of example_loads discovery_none_text = Some discovery_none"
  "map_of example_loads discovery_batch_text = Some discovery_batch"
  "map_of example_loads discovery_batch_only_text = Some discovery_batch_only"
  "map_of example_loads discovery_empty_batch_text = Some discovery_empty_batch"
  "map_of example_loads schema_one_text = Some schema_one"
  "map_of example_loads schema_empty_text = Some schema_empty"
  "map_of example_loads schema_nodata_text = Some schema_nodata"
  "map_of example_loads schema_browser_text = Some schema_browser"
  "map_of example_loads exec_ok_text = Some exec_ok"
  "map_of example_loads exec_unreachable_text = Some exec_unreachable"
  by (simp_all add: example_loads_def example_texts)

lemma example_dumps_simps:
  "json_dumps (example_env outs) notes_args = notes_args_text"
  "json_dumps (example_env outs) (JArr browser_ops) = browser_ops_text"
  by (simp_all add: example_env_def scripted_env_def example_dumps_def notes_args_def
      browser_ops_def)

lemma example_env_simps:
  "mcp_command (example_env outs) = default_command"
  "json_loads (example_env outs) = table_loads example_loads"
  "subprocess_run (example_env outs) calls command =
     (if length calls < length outs then Completed 0 (outs ! length calls) []
      else RunRaised ''[Errno 2] No such file or directory'')"
  by (simp_all add: example_env_def scripted_env_def)

lemma exit_env_simps:
  "mcp_command (exit_env rc out err) = default_command"
  "json_loads (exit_env rc out err) = table_loads example_loads"
  "subprocess_run (exit_env rc out err) calls command = Completed rc out err"
  by (simp_all add: exit_env_def example_env_simps)

lemma exec_mcp_example:
  assumes "length calls < length outs" and "map_of example_loads (outs ! length calls) = Some v"
  shows "exec_mcp (example_env outs) command calls =
           (Inr v, calls @ [default_command @ '' '' @ command])"
  using assms by (simp add: exec_mcp_def example_env_simps table_loads_def)

lemmas phase_defs =
  discover_def discover_result_def load_schemas_def exec_tool_def batch_def
  check_success_def get_metadata_def normalize_schemas_def py_format_def

lemma discover_example_fs:
  "discover (example_env (discovery_fs_text # outs)) task [] =
     (Inr (JObj [(''matches'', JArr [fs_match])]),
      [default_command @ '' discover '' @ [DQ] @ task @ [DQ]])"
  by (simp add: phase_defs iobind_def exec_mcp_example example_loads_simps discovery_fs_def)

lemma discover_example_none:
  "discover (example_env (discovery_none_text # outs)) task [] =
     (Inr (JObj [(''matches'', JArr [])]),
      [default_command @ '' discover '' @ [DQ] @ task @ [DQ]])"
  by (simp add: phase_defs iobind_def exec_mcp_example example_loads_simps discovery_none_def)

lemma discover_example_batch_only:
  "discover (example_env (discovery_batch_only_text # outs)) task [] =
     (Inr (JObj [(''matches'', JArr []), (''suggested_batch'', browser_batch)]),
      [default_command @ '' discover '' @ [DQ] @ task @ [DQ]])"
  by (simp add: phase_defs iobind_def exec_mcp_example example_loads_simps
      discovery_batch_only_def browser_batch_def)

lemma discover_example_empty_batch:
  "discover (example_env (discovery_empty_batch_text # outs)) task [] =
     (Inr (JObj [(''matches'', JArr []), (''suggested_batch'', empty_batch)]),
      [default_command @ '' discover '' @ [DQ] @ task @ [DQ]])"
  by (simp add: phase_defs iobind_def exec_mcp_example example_loads_simps
      discovery_empty_batch_def empty_batch_def)

lemma discover_example_batch:
  "discover (example_env (discovery_batch_text # outs)) task [] =
     (Inr (JObj [(''matches'', JArr [JObj [(''server'', JStr ''browser''),
                                          (''tool'', JStr ''browser_navigate''),
                                          (''confidence'', JFloat 0x3FECCCCCCCCCCCCD)]]),
                 (''suggested_batch'', browser_batch)]),
      [default_command @ '' discover '' @ [DQ] @ task @ [DQ]])"
  by (simp add: phase_defs iobind_def exec_mcp_example example_loads_simps
      discovery_batch_def browser_batch_def)

lemma load_schemas_example_one:
  "load_schemas (example_env [d, schema_one_text, x]) (JStr ''fs'') (JArr [JStr ''read_file'']) [c] =
     (Inr [read_file_schema], [c, default_command @ '' tools schema fs read_file''])"
  by (simp add: phase_defs iobind_def exec_mcp_example example_loads_simps schema_one_def
      read_file_schema_def)

lemma load_schemas_example_empty:
  "load_schemas (example_env [d, schema_empty_text, x]) (JStr ''fs'') (JArr [JStr ''read_file'']) [c] =
     (Inr [], [c, default_command @ '' tools schema fs read_file''])"
  by (simp add: phase_defs iobind_def exec_mcp_example example_loads_simps schema_empty_def)

lemma load_schemas_example_browser:
  "load_schemas (example_env [d, schema_browser_text, x]) (JStr ''browser'')
       (JArr [JStr ''browser_navigate'', JStr ''browser_screenshot'']) [c] =
     (Inr [JObj [(''name'', JStr ''browser_screenshot'')]],
      [c, default_command @ '' tools schema browser browser_navigate browser_screenshot''])"
  by (simp add: phase_defs iobind_def exec_mcp_example example_loads_simps schema_browser_def)

lemma infer_arguments_notes:
  "infer_arguments (JStr ''read_file'') schema notes_task = Inr notes_args"
  by (simp add: infer_arguments_def notes_task_def notes_args_def is_quote_def DQ_def SQ_def)

lemma build_batch_ops_browser:
  "build_batch_ops [JObj [(''name'', JStr ''browser_screenshot'')]]
     [''browser_navigate'', ''browser_screenshot''] ''take a screenshot'' = Inr browser_ops"
  by (simp add: infer_arguments_def match_url_at_def browser_ops_def)

text \<open>The theorem of C1 at two runs: one with a suggested batch, which ends in \<open>batch\<close>,
  and one without, which ends in \<open>exec_tool\<close> on the first match.\<close>

theorem strategy_selection_witness:
  "execute_task (example_env [discovery_batch_text, schema_browser_text, exec_ok_text])
       ''take a screenshot'' [] =
     batch (example_env [discovery_batch_text, schema_browser_text, exec_ok_text])
       (JStr ''browser'') browser_ops False
       [default_command @ '' discover '' @ [DQ] @ ''take a screenshot'' @ [DQ],
        default_command @ '' tools schema browser browser_navigate browser_screenshot''] \<and>
   execute_task (example_env [discovery_fs_text, schema_one_text, exec_ok_text]) notes_task [] =
     exec_tool (example_env [discovery_fs_text, schema_one_text, exec_ok_text])
       (JStr ''fs'') (JStr ''read_file'') notes_args
       [default_command @ '' discover '' @ [DQ] @ notes_task @ [DQ],
        default_command @ '' tools schema fs read_file'']"
proof
  show "execute_task (example_env [discovery_batch_text, schema_browser_text, exec_ok_text])
       ''take a screenshot'' [] =
     batch (example_env [discovery_batch_text, schema_browser_text, exec_ok_text])
       (JStr ''browser'') browser_ops False
       [default_command @ '' discover '' @ [DQ] @ ''take a screenshot'' @ [DQ],
        default_command @ '' tools schema browser browser_navigate browser_screenshot'']"
    using strategy_selection [OF discover_example_batch
          [of "[schema_browser_text, exec_ok_text]" "''take a screenshot''"],
        where suggested = browser_batch
          and matches = "JArr [JObj [(''server'', JStr ''browser''),
                                     (''tool'', JStr ''browser_navigate''),
                                     (''confidence'', JFloat 0x3FECCCCCCCCCCCCD)]]"]
    by (simp add: browser_batch_def load_schemas_example_browser build_batch_ops_browser
        del: build_batch_ops.simps)
  show "execute_task (example_env [discovery_fs_text, schema_one_text, exec_ok_text]) notes_task [] =
     exec_tool (example_env [discovery_fs_text, schema_one_text, exec_ok_text])
       (JStr ''fs'') (JStr ''read_file'') notes_args
       [default_command @ '' discover '' @ [DQ] @ notes_task @ [DQ],
        default_command @ '' tools schema fs read_file'']"
    using strategy_selection [OF discover_example_fs
          [of "[schema_one_text, exec_ok_text]" notes_task],
        where suggested = JNull and matches = "JArr [fs_match]"]
    by (simp add: fs_match_def load_schemas_example_one infer_arguments_notes)
qed

text \<open>
  Claim C1 as it was stated fails where Discovery suggests a batch and returns no match:
  the run stops after the discover command, before any schema is loaded. The first run
  is suggested a batch of two operations, the second a batch of none (its operations are
  then among the tools of the empty match sequence).
\<close>

theorem batch_without_match_counterexample:
  "fst (discover (example_env [discovery_batch_only_text]) ''take a screenshot'' []) =
     Inr (JObj [(''matches'', JArr []), (''suggested_batch'', browser_batch)]) \<and>
   py_truthy browser_batch \<and>
   execute_task (example_env [discovery_batch_only_text]) ''take a screenshot'' [] =
     (Inl (RuntimeError ''No matching tools found for the task''),
      [default_command @ '' discover '' @ [DQ] @ ''take a screenshot'' @ [DQ]]) \<and>
   fst (discover (example_env [discovery_empty_batch_text]) ''take a screenshot'' []) =
     Inr (JObj [(''matches'', JArr []), (''suggested_batch'', empty_batch)]) \<and>
   py_truthy empty_batch \<and>
   execute_task (example_env [discovery_empty_batch_text]) ''take a screenshot'' [] =
     (Inl (RuntimeError ''No matching tools found for the task''),
      [default_command @ '' discover '' @ [DQ] @ ''take a screenshot'' @ [DQ]])"
  by (simp add: discover_example_batch_only discover_example_empty_batch execute_task_def
      iobind_def browser_batch_def empty_batch_def)

subsection \<open>No match\<close>

text \<open>
  Claim C2. When Discovery returns a result whose \<open>matches\<close> is the empty sequence (or has
  no \<open>matches\<close> at all, which \<^verbatim>\<open>get\<close> turns into the empty sequence), the run ends with
  the error "No matching tools found for the task", and the only command it has run is the
  discover command: no schema is loaded and nothing is executed.
\<close>

theorem no_match_error:
  assumes "discover env task calls = (Inr discovery, calls1)"
    and "py_get discovery ''matches'' (JArr []) = Inr (JArr [])"
  shows "execute_task env task calls =
           (Inl (RuntimeError ''No matching tools found for the task''),
            calls @ [mcp_command env @ '' discover '' @ [DQ] @ task @ [DQ]])"
proof -
  have "calls1 = calls @ [mcp_command env @ '' discover '' @ [DQ] @ task @ [DQ]]"
    using discover_calls [of env task calls] assms(1) by simp
  then show ?thesis
    using assms by (simp add: execute_task_def iobind_def)
qed

theorem no_match_error_witness:
  "discover (example_env [discovery_none_text]) ''water the plants'' [] =
     (Inr (JObj [(''matches'', JArr [])]),
      [default_command @ '' discover '' @ [DQ] @ ''water the plants'' @ [DQ]]) \<and>
   execute_task (example_env [discovery_none_text]) ''water the plants'' [] =
     (Inl (RuntimeError ''No matching tools found for the task''),
      [default_command @ '' discover '' @ [DQ] @ ''water the plants'' @ [DQ]])"
  using no_match_error [OF discover_example_none [of "[]" "''water the plants''"]]
  by (simp add: discover_example_none example_env_simps)

subsection \<open>The gateway\<close>

text \<open>
  Claim C8, as amended. Whenever the external command completes, with any exit status
  \<open>rc\<close> and any text \<open>err\<close> on its error stream, the captured output is handed to
  \<^verbatim>\<open>json.loads\<close> and the gateway's result is decided by what \<^verbatim>\<open>json.loads\<close> does with it:
  the parsed value when it returns one; a \<^verbatim>\<open>ValueError\<close> (the agent's malformed-response
  error) whose text ends with the raw output when it raises \<^verbatim>\<open>JSONDecodeError\<close>; and a
  \<^verbatim>\<open>RuntimeError\<close> with the text \<^verbatim>\<open>Failed to execute MCP command: \<close> and the text of the
  exception, without the raw output, when it raises anything else.
\<close>

theorem exec_mcp_parses_output:
  assumes "subprocess_run env calls (mcp_command env @ '' '' @ command) = Completed rc out err"
  shows "(\<forall>v. json_loads env out = Loaded v \<longrightarrow> fst (exec_mcp env command calls) = Inr v) \<and>
         (json_loads env out = JSONDecodeError \<longrightarrow>
            fst (exec_mcp env command calls) =
              Inl (ValueError (''Failed to parse MCP response: '' @ out))) \<and>
         (\<forall>msg. json_loads env out = LoadsRaised msg \<longrightarrow>
            fst (exec_mcp env command calls) =
              Inl (RuntimeError (''Failed to execute MCP command: '' @ msg)))"
  using assms by (simp add: exec_mcp_def Let_def)

lemma deep_env_simps:
  "mcp_command (deep_env rc) = default_command"
  "subprocess_run (deep_env rc) calls command = Completed rc deep_text []"
  "json_loads (deep_env rc) deep_text =
     LoadsRaised
       ''maximum recursion depth exceeded while decoding a JSON array from a unicode string''"
  by (simp_all add: deep_env_def exit_env_simps)

theorem exec_mcp_parses_output_witness:
  "fst (exec_mcp (exit_env 1 ''Traceback'' ''crashed'') ''tools exec fs read_file'' []) =
     Inl (ValueError ''Failed to parse MCP response: Traceback'') \<and>
   fst (exec_mcp (exit_env 1 exec_unreachable_text ''crashed'') ''tools exec fs read_file'' []) =
     Inr exec_unreachable \<and>
   fst (exec_mcp (deep_env 1) ''tools exec fs read_file'' []) =
     Inl (RuntimeError ''Failed to execute MCP command: maximum recursion depth exceeded while decoding a JSON array from a unicode string'')"
proof (intro conjI)
  have t: "json_loads (exit_env 1 ''Traceback'' ''crashed'') ''Traceback'' = JSONDecodeError"
    by (simp add: exit_env_simps table_loads_def example_loads_def example_texts)
  show "fst (exec_mcp (exit_env 1 ''Traceback'' ''crashed'') ''tools exec fs read_file'' []) =
     Inl (ValueError ''Failed to parse MCP response: Traceback'')"
    using exec_mcp_parses_output [of "exit_env 1 ''Traceback'' ''crashed''" "[]"
        "''tools exec fs read_file''" 1 "''Traceback''" "''crashed''"] t
    by (simp add: exit_env_simps)
  show "fst (exec_mcp (exit_env 1 exec_unreachable_text ''crashed'') ''tools exec fs read_file'' []) =
     Inr exec_unreachable"
    using exec_mcp_parses_output [of "exit_env 1 exec_unreachable_text ''crashed''" "[]"
        "''tools exec fs read_file''" 1 exec_unreachable_text "''crashed''"]
    by (simp add: exit_env_simps table_loads_def example_loads_simps)
  show "fst (exec_mcp (deep_env 1) ''tools exec fs read_file'' []) =
     Inl (RuntimeError ''Failed to execute MCP command: maximum recursion depth exceeded while decoding a JSON array from a unicode string'')"
    using exec_mcp_parses_output [of "deep_env 1" "[]" "''tools exec fs read_file''" 1
        deep_text "[]"]
    by (simp add: deep_env_simps)
qed

text \<open>
  Claim C8 as it was stated fails on an output that is not JSON and on which
  \<^verbatim>\<open>json.loads\<close> raises something other than \<^verbatim>\<open>JSONDecodeError\<close>: 2000 opening brackets.
  The error is a \<^verbatim>\<open>RuntimeError\<close> that does not carry the output, not the
  malformed-response error with the raw output.
\<close>

theorem exec_mcp_other_exception_counterexample:
  "subprocess_run (deep_env 0) [] (default_command @ '' discover '' @ [DQ] @ ''hello'' @ [DQ]) =
     Completed 0 deep_text [] \<and>
   fst (exec_mcp (deep_env 0) (''discover '' @ [DQ] @ ''hello'' @ [DQ]) []) =
     Inl (RuntimeError ''Failed to execute MCP command: maximum recursion depth exceeded while decoding a JSON array from a unicode string'') \<and>
   fst (exec_mcp (deep_env 0) (''discover '' @ [DQ] @ ''hello'' @ [DQ]) []) \<noteq>
     Inl (ValueError (''Failed to parse MCP response: '' @ deep_text))"
  by (simp add: exec_mcp_def deep_env_simps)

subsection \<open>Schema normalisation\<close>

lemma normalize_schemas_simps:
  "normalize_schemas (JArr xs) = xs"
  "normalize_schemas (JObj kvs) = [JObj kvs]"
  "normalize_schemas JNull = [JNull]"
  by (simp_all add: normalize_schemas_def)

text \<open>
  What \<open>load_schemas\<close> returns when it succeeds: the schema command was answered with a
  response whose \<open>data\<close> decides the result. A list is returned as it is, so the result
  has as many elements as the list; a single object is returned as a sequence of one.
\<close>

theorem load_schemas_normalizes:
  assumes "load_schemas env server tools calls = (Inr schemas, calls_schema)"
  shows "\<exists>names response data.
           py_iter_strs tools = Inr names \<and>
           exec_mcp env (''tools schema '' @ py_format env server @ '' '' @ join_sp names) calls =
             (Inr response, calls_schema) \<and>
           py_get response ''data'' JNull = Inr data \<and>
           (\<forall>xs. data = JArr xs \<longrightarrow> schemas = xs) \<and>
           (\<forall>kvs. data = JObj kvs \<longrightarrow> schemas = [JObj kvs])"
proof -
  from assms obtain n where n: "py_len tools = Inr n"
    by (cases "py_len tools") (simp_all add: load_schemas_def)
  from assms n obtain names where names: "py_iter_strs tools = Inr names"
    by (cases "py_iter_strs tools") (simp_all add: load_schemas_def)
  let ?cmd = "''tools schema '' @ py_format env server @ '' '' @ join_sp names"
  from assms n names obtain response where r: "exec_mcp env ?cmd calls = (Inr response, calls_schema)"
    and rest: "ebind (check_success env ''Schema loading failed: '' response) (\<lambda>_.
       ebind (py_get response ''data'' JNull) (\<lambda>data.
       ebind (get_metadata response ''tokensEstimate'') (\<lambda>_.
       Inr (normalize_schemas data)))) = Inr schemas"
    by (auto simp: load_schemas_def iobind_def split: prod.splits sum.splits)
  from rest obtain data where data: "py_get response ''data'' JNull = Inr data"
    and s: "schemas = normalize_schemas data"
    by (auto simp: ebind_eq_Inr)
  from names r data s show ?thesis
    by (auto simp: normalize_schemas_def)
qed

theorem load_schemas_normalizes_witness:
  "\<exists>names response data.
     py_iter_strs (JArr [JStr ''read_file'']) = Inr names \<and>
     exec_mcp (example_env [discovery_fs_text, schema_one_text, exec_ok_text])
        (''tools schema '' @
         py_format (example_env [discovery_fs_text, schema_one_text, exec_ok_text]) (JStr ''fs'') @
         '' '' @ join_sp names) [default_command] =
       (Inr response, [default_command, default_command @ '' tools schema fs read_file'']) \<and>
     py_get response ''data'' JNull = Inr data \<and>
     (\<forall>xs. data = JArr xs \<longrightarrow> [read_file_schema] = xs) \<and>
     (\<forall>kvs. data = JObj kvs \<longrightarrow> [read_file_schema] = [JObj kvs])"
  by (rule load_schemas_normalizes [OF load_schemas_example_one])

text \<open>
  Claim C3 at the response \<^verbatim>\<open>{"success": true}\<close>, which carries no schema: \<^verbatim>\<open>data\<close> is
  \<^verbatim>\<open>None\<close>, which is not a list, so the result is the one-element sequence \<^verbatim>\<open>[None]\<close>
  and not the empty one.
\<close>

theorem load_schemas_without_data:
  "json_loads (example_env [schema_nodata_text]) schema_nodata_text =
     Loaded (JObj [(''success'', JBool True)]) \<and>
   load_schemas (example_env [schema_nodata_text]) (JStr ''fs'') (JArr [JStr ''read_file'']) [] =
     (Inr [JNull], [default_command @ '' tools schema fs read_file''])"
  by (simp add: phase_defs iobind_def exec_mcp_example example_loads_simps example_env_simps
      table_loads_def schema_nodata_def)

subsection \<open>The single-tool path on an empty schema result\<close>

text \<open>
  Claim C5 at the Schema response \<^verbatim>\<open>{"success": true, "data": []}\<close>: the single-tool path
  evaluates \<^verbatim>\<open>schemas[0]\<close> on the empty list, so the run ends with \<^verbatim>\<open>IndexError\<close> after
  the schema command; arguments are never inferred and nothing is executed.
\<close>

theorem empty_schema_result_raises:
  "execute_task (example_env [discovery_fs_text, schema_empty_text, exec_ok_text]) notes_task [] =
     (Inl IndexError,
      [default_command @ '' discover '' @ [DQ] @ notes_task @ [DQ],
       default_command @ '' tools schema fs read_file''])"
  using execute_task_single [OF discover_example_fs
        [of "[schema_empty_text, exec_ok_text]" notes_task],
      where suggested = JNull and top_match = fs_match and rest = "[]"
        and confidence = "JFloat 0x3FECCCCCCCCCCCCD" and server = "JStr ''fs''"
        and tool = "JStr ''read_file''"]
  by (simp add: fs_match_def load_schemas_example_empty)

subsection \<open>What the two patterns find\<close>

lemma match_quoted_at_Some_iff:
  "match_quoted_at s = Some m \<longleftrightarrow>
     (\<exists>q1 body q2 post. s = q1 # body @ q2 # post \<and> is_quote q1 \<and> is_quote q2 \<and>
        body \<noteq> [] \<and> (\<forall>c\<in>set body. \<not> is_quote c) \<and> m = Match [q1 # body @ [q2], body])"
proof (cases s)
  case Nil
  then show ?thesis by simp
next
  case (Cons c cs)
  let ?P = "\<lambda>x. \<not> is_quote x"
  show ?thesis
  proof
    assume "match_quoted_at s = Some m"
    with Cons have c: "is_quote c" and b: "takeWhile ?P cs \<noteq> []" and r: "dropWhile ?P cs \<noteq> []"
      and m: "m = Match [c # takeWhile ?P cs @ [hd (dropWhile ?P cs)], takeWhile ?P cs]"
      by (auto simp: Let_def split: if_splits)
    from r obtain q2 post where d: "dropWhile ?P cs = q2 # post"
      by (cases "dropWhile ?P cs") auto
    then have q2: "is_quote q2"
      using hd_dropWhile [of ?P cs] r by auto
    have "cs = takeWhile ?P cs @ q2 # post"
      using takeWhile_dropWhile_id [of ?P cs] d by simp
    moreover have "\<forall>x\<in>set (takeWhile ?P cs). \<not> is_quote x"
      by (auto dest: set_takeWhileD)
    ultimately show "\<exists>q1 body q2 post. s = q1 # body @ q2 # post \<and> is_quote q1 \<and> is_quote q2 \<and>
        body \<noteq> [] \<and> (\<forall>c\<in>set body. \<not> is_quote c) \<and> m = Match [q1 # body @ [q2], body]"
      using Cons c b q2 m d by (intro exI [of _ c] exI [of _ "takeWhile ?P cs"] exI [of _ q2] exI [of _ post]) simp
  next
    assume "\<exists>q1 body q2 post. s = q1 # body @ q2 # post \<and> is_quote q1 \<and> is_quote q2 \<and>
        body \<noteq> [] \<and> (\<forall>c\<in>set body. \<not> is_quote c) \<and> m = Match [q1 # body @ [q2], body]"
    then obtain q1 body q2 post where s: "s = q1 # body @ q2 # post" and q1: "is_quote q1"
      and q2: "is_quote q2" and b: "body \<noteq> []" and nb: "\<forall>c\<in>set body. \<not> is_quote c"
      and m: "m = Match [q1 # body @ [q2], body]"
      by blast
    have t: "takeWhile ?P (body @ q2 # post) = body"
      using nb q2 by (simp add: takeWhile_tail)
    have d: "dropWhile ?P (body @ q2 # post) = q2 # post"
      using nb q2 by (simp add: dropWhile_append3)
    show "match_quoted_at s = Some m"
      using q1 b by (simp add: s m t d Let_def)
  qed
qed

lemma re_search_quoted_None_suffix:
  "re_search_quoted task = None \<longleftrightarrow> (\<forall>pre rest. task = pre @ rest \<longrightarrow> match_quoted_at rest = None)"
proof (induction task)
  case Nil
  then show ?case by simp
next
  case (Cons c cs)
  show ?case
  proof
    assume n: "re_search_quoted (c # cs) = None"
    then have h: "match_quoted_at (c # cs) = None" and t: "re_search_quoted cs = None"
      by (auto simp del: match_quoted_at.simps split: option.splits)
    show "\<forall>pre rest. c # cs = pre @ rest \<longrightarrow> match_quoted_at rest = None"
    proof (intro allI impI)
      fix pre rest
      assume e: "c # cs = pre @ rest"
      show "match_quoted_at rest = None"
      proof (cases pre)
        case Nil
        with e h show ?thesis by simp
      next
        case (Cons x pre')
        with e have "cs = pre' @ rest" by simp
        with t Cons.IH show ?thesis by blast
      qed
    qed
  next
    assume a: "\<forall>pre rest. c # cs = pre @ rest \<longrightarrow> match_quoted_at rest = None"
    then have h: "match_quoted_at (c # cs) = None"
      by (metis append_Nil)
    have "\<forall>pre rest. cs = pre @ rest \<longrightarrow> match_quoted_at rest = None"
      using a by (metis append_Cons)
    with Cons.IH have "re_search_quoted cs = None" by blast
    with h show "re_search_quoted (c # cs) = None"
      by (simp del: match_quoted_at.simps)
  qed
qed

text \<open>
  The search for a quoted text finds nothing exactly when the task has no quote character
  followed by one or more characters that are not quotes and then by a quote character.
\<close>

lemma re_search_quoted_None_iff:
  "re_search_quoted task = None \<longleftrightarrow>
     \<not> (\<exists>pre q1 body q2 post. task = pre @ q1 # body @ q2 # post \<and> is_quote q1 \<and> is_quote q2 \<and>
            body \<noteq> [] \<and> (\<forall>c\<in>set body. \<not> is_quote c))"
proof
  assume n: "re_search_quoted task = None"
  show "\<not> (\<exists>pre q1 body q2 post. task = pre @ q1 # body @ q2 # post \<and> is_quote q1 \<and> is_quote q2 \<and>
            body \<noteq> [] \<and> (\<forall>c\<in>set body. \<not> is_quote c))"
  proof
    assume "\<exists>pre q1 body q2 post. task = pre @ q1 # body @ q2 # post \<and> is_quote q1 \<and> is_quote q2 \<and>
            body \<noteq> [] \<and> (\<forall>c\<in>set body. \<not> is_quote c)"
    then obtain pre q1 body q2 post where e: "task = pre @ q1 # body @ q2 # post"
      and p: "is_quote q1" "is_quote q2" "body \<noteq> []" "\<forall>c\<in>set body. \<not> is_quote c"
      by blast
    from p have "match_quoted_at (q1 # body @ q2 # post) = Some (Match [q1 # body @ [q2], body])"
      unfolding match_quoted_at_Some_iff by blast
    moreover from n e have "match_quoted_at (q1 # body @ q2 # post) = None"
      unfolding re_search_quoted_None_suffix by blast
    ultimately show False by simp
  qed
next
  assume no: "\<not> (\<exists>pre q1 body q2 post. task = pre @ q1 # body @ q2 # post \<and> is_quote q1 \<and>
            is_quote q2 \<and> body \<noteq> [] \<and> (\<forall>c\<in>set body. \<not> is_quote c))"
  have "match_quoted_at rest = None" if e: "task = pre @ rest" for pre rest
  proof (cases "match_quoted_at rest")
    case None
    then show ?thesis .
  next
    case (Some m)
    then obtain q1 body q2 post where "rest = q1 # body @ q2 # post" "is_quote q1" "is_quote q2"
      "body \<noteq> []" "\<forall>c\<in>set body. \<not> is_quote c"
      unfolding match_quoted_at_Some_iff by blast
    with e no show ?thesis by blast
  qed
  then show "re_search_quoted task = None"
    unfolding re_search_quoted_None_suffix by blast
qed

lemma url_rest_nonempty:
  "url_rest n s \<noteq> [] \<longleftrightarrow> (\<exists>c post. drop n s = c # post \<and> \<not> is_space c)"
  by (cases "drop n s") (auto simp: url_rest_def)

lemma match_https_iff:
  "take 8 s = ''https://'' \<and> url_rest 8 s \<noteq> [] \<longleftrightarrow>
     (\<exists>c post. s = ''https://'' @ c # post \<and> \<not> is_space c)"
proof
  assume a: "take 8 s = ''https://'' \<and> url_rest 8 s \<noteq> []"
  then obtain c post where d: "drop 8 s = c # post" and c: "\<not> is_space c"
    unfolding url_rest_nonempty by blast
  from a have t: "take 8 s = ''https://''" by blast
  have "take 8 s @ drop 8 s = s" by (rule append_take_drop_id)
  then have "''https://'' @ c # post = s" by (simp only: t d)
  then have "s = ''https://'' @ c # post" by (rule sym)
  with c show "\<exists>c post. s = ''https://'' @ c # post \<and> \<not> is_space c" by blast
next
  assume "\<exists>c post. s = ''https://'' @ c # post \<and> \<not> is_space c"
  then obtain c post where s: "s = ''https://'' @ c # post" and c: "\<not> is_space c" by blast
  from s have "take 8 s = ''https://''" and "drop 8 s = c # post" by simp_all
  with c show "take 8 s = ''https://'' \<and> url_rest 8 s \<noteq> []"
    unfolding url_rest_nonempty by blast
qed

lemma match_http_iff:
  "take 7 s = ''http://'' \<and> url_rest 7 s \<noteq> [] \<longleftrightarrow>
     (\<exists>c post. s = ''http://'' @ c # post \<and> \<not> is_space c)"
proof
  assume a: "take 7 s = ''http://'' \<and> url_rest 7 s \<noteq> []"
  then obtain c post where d: "drop 7 s = c # post" and c: "\<not> is_space c"
    unfolding url_rest_nonempty by blast
  from a have t: "take 7 s = ''http://''" by blast
  have "take 7 s @ drop 7 s = s" by (rule append_take_drop_id)
  then have "''http://'' @ c # post = s" by (simp only: t d)
  then have "s = ''http://'' @ c # post" by (rule sym)
  with c show "\<exists>c post. s = ''http://'' @ c # post \<and> \<not> is_space c" by blast
next
  assume "\<exists>c post. s = ''http://'' @ c # post \<and> \<not> is_space c"
  then obtain c post where s: "s = ''http://'' @ c # post" and c: "\<not> is_space c" by blast
  from s have "take 7 s = ''http://''" and "drop 7 s = c # post" by simp_all
  with c show "take 7 s = ''http://'' \<and> url_rest 7 s \<noteq> []"
    unfolding url_rest_nonempty by blast
qed

lemma match_url_at_None_iff:
  "match_url_at s = None \<longleftrightarrow>
     \<not> (\<exists>c post. (s = ''http://'' @ c # post \<or> s = ''https://'' @ c # post) \<and> \<not> is_space c)"
proof -
  have "match_url_at s = None \<longleftrightarrow>
          \<not> (take 8 s = ''https://'' \<and> url_rest 8 s \<noteq> []) \<and>
          \<not> (take 7 s = ''http://'' \<and> url_rest 7 s \<noteq> [])"
    by (simp only: match_url_at_def split: if_splits) simp
  then show ?thesis
    unfolding match_https_iff match_http_iff by blast
qed

lemma re_search_url_None_suffix:
  "re_search_url task = None \<longleftrightarrow> (\<forall>pre rest. task = pre @ rest \<longrightarrow> match_url_at rest = None)"
proof (induction task)
  case Nil
  then show ?case by (simp add: match_url_at_def)
next
  case (Cons c cs)
  show ?case
  proof
    assume n: "re_search_url (c # cs) = None"
    then have h: "match_url_at (c # cs) = None" and t: "re_search_url cs = None"
      by (auto split: option.splits)
    show "\<forall>pre rest. c # cs = pre @ rest \<longrightarrow> match_url_at rest = None"
    proof (intro allI impI)
      fix pre rest
      assume e: "c # cs = pre @ rest"
      show "match_url_at rest = None"
      proof (cases pre)
        case Nil
        with e h show ?thesis by simp
      next
        case (Cons x pre')
        with e have "cs = pre' @ rest" by simp
        with t Cons.IH show ?thesis by blast
      qed
    qed
  next
    assume a: "\<forall>pre rest. c # cs = pre @ rest \<longrightarrow> match_url_at rest = None"
    then have h: "match_url_at (c # cs) = None"
      by (metis append_Nil)
    have "\<forall>pre rest. cs = pre @ rest \<longrightarrow> match_url_at rest = None"
      using a by (metis append_Cons)
    with Cons.IH have "re_search_url cs = None" by blast
    with h show "re_search_url (c # cs) = None"
      by simp
  qed
qed

lemma suffix_pattern_split:
  "(\<forall>pre rest. task = pre @ rest \<longrightarrow>
      \<not> (\<exists>c post. (rest = a @ c # post \<or> rest = b @ c # post) \<and> Q c)) \<longleftrightarrow>
   \<not> (\<exists>pre c post. (task = pre @ a @ c # post \<or> task = pre @ b @ c # post) \<and> Q c)"
  by blast

text \<open>
  The search for a URL finds nothing exactly when the task has neither \<^verbatim>\<open>http://\<close> nor
  \<^verbatim>\<open>https://\<close> followed by a character that is not white space.
\<close>

lemma re_search_url_None_iff:
  "re_search_url task = None \<longleftrightarrow>
     \<not> (\<exists>pre c post. (task = pre @ ''http://'' @ c # post \<or> task = pre @ ''https://'' @ c # post) \<and>
            \<not> is_space c)"
  unfolding re_search_url_None_suffix match_url_at_None_iff
  by (rule suffix_pattern_split)

subsection \<open>Argument inference\<close>

lemma re_search_url_groups: "re_search_url task = Some m \<Longrightarrow> \<exists>u. m = Match [u]"
  by (induction task) (auto simp: match_url_at_def split: option.splits if_splits)

lemma re_search_quoted_groups: "re_search_quoted task = Some m \<Longrightarrow> \<exists>w p. m = Match [w, p]"
  by (induction task) (auto simp: Let_def split: option.splits if_splits)

lemma infer_arguments_total: "\<exists>args. infer_arguments tool_name schema task = Inr (JObj args)"
proof -
  have "\<exists>u. (case re_search_url task of Some m \<Rightarrow> py_group m 0
               | None \<Rightarrow> Inr ''https://example.com'') = Inr u"
    by (cases "re_search_url task") (auto dest: re_search_url_groups)
  then obtain u where u: "(case re_search_url task of Some m \<Rightarrow> py_group m 0
               | None \<Rightarrow> Inr ''https://example.com'') = Inr u" ..
  have "\<exists>p. (case re_search_quoted task of Some m \<Rightarrow> py_group m 1
               | None \<Rightarrow> Inr ''README.md'') = Inr p"
    by (cases "re_search_quoted task") (auto dest: re_search_quoted_groups)
  then obtain p where p: "(case re_search_quoted task of Some m \<Rightarrow> py_group m 1
               | None \<Rightarrow> Inr ''README.md'') = Inr p" ..
  show ?thesis
    by (simp add: infer_arguments_def u p)
qed

text \<open>
  Claim C6. For every tool name (a string or any other value), every schema and every task
  text, \<open>infer_arguments\<close> returns a dict and raises nothing. Where the text has no URL
  (no \<^verbatim>\<open>http://\<close> or \<^verbatim>\<open>https://\<close> followed by a character that is not white space),
  \<^verbatim>\<open>browser_navigate\<close> gets the default URL \<^verbatim>\<open>https://example.com\<close>; where it has no quoted
  text (no quote, one or more characters that are not quotes, and a quote), \<^verbatim>\<open>read_file\<close>
  gets the default path \<^verbatim>\<open>README.md\<close>; a tool the agent does not know gets the empty
  dict. The empty text has neither pattern.
\<close>

theorem infer_arguments_never_raises:
  "(\<exists>args. infer_arguments tool_name schema task = Inr (JObj args)) \<and>
   (\<not> (\<exists>pre c post. (task = pre @ ''http://'' @ c # post \<or>
                        task = pre @ ''https://'' @ c # post) \<and> \<not> is_space c) \<longrightarrow>
      infer_arguments (JStr ''browser_navigate'') schema task =
        Inr (JObj [(''url'', JStr ''https://example.com'')])) \<and>
   (\<not> (\<exists>pre q1 body q2 post. task = pre @ q1 # body @ q2 # post \<and> is_quote q1 \<and>
           is_quote q2 \<and> body \<noteq> [] \<and> (\<forall>c\<in>set body. \<not> is_quote c)) \<longrightarrow>
      infer_arguments (JStr ''read_file'') schema task =
        Inr (JObj [(''path'', JStr ''README.md'')])) \<and>
   (tool_name \<noteq> JStr ''browser_navigate'' \<and> tool_name \<noteq> JStr ''browser_screenshot'' \<and>
    tool_name \<noteq> JStr ''read_file'' \<longrightarrow>
      infer_arguments tool_name schema task = Inr (JObj [])) \<and>
   infer_arguments (JStr ''browser_navigate'') schema [] =
     Inr (JObj [(''url'', JStr ''https://example.com'')]) \<and>
   infer_arguments (JStr ''read_file'') schema [] = Inr (JObj [(''path'', JStr ''README.md'')])"
  unfolding re_search_url_None_iff [symmetric] re_search_quoted_None_iff [symmetric]
  using infer_arguments_total [of tool_name schema task]
  by (simp add: infer_arguments_def)

theorem infer_arguments_never_raises_witness:
  "\<not> (\<exists>pre c post. (''say hello'' = pre @ ''http://'' @ c # post \<or>
                       ''say hello'' = pre @ ''https://'' @ c # post) \<and> \<not> is_space c) \<and>
   \<not> (\<exists>pre q1 body q2 post. ''say hello'' = pre @ q1 # body @ q2 # post \<and> is_quote q1 \<and>
          is_quote q2 \<and> body \<noteq> [] \<and> (\<forall>c\<in>set body. \<not> is_quote c)) \<and>
   infer_arguments (JStr ''browser_navigate'') JNull ''say hello'' =
     Inr (JObj [(''url'', JStr ''https://example.com'')]) \<and>
   infer_arguments (JStr ''read_file'') JNull ''say hello'' =
     Inr (JObj [(''path'', JStr ''README.md'')]) \<and>
   infer_arguments (JStr ''read_file'') JNull [] = Inr (JObj [(''path'', JStr ''README.md'')]) \<and>
   infer_arguments (JInt 7) JNull ''say hello'' = Inr (JObj [])"
proof -
  have a: "re_search_url ''say hello'' = None"
    by (simp add: match_url_at_def)
  have u: "\<not> (\<exists>pre c post. (''say hello'' = pre @ ''http://'' @ c # post \<or>
                       ''say hello'' = pre @ ''https://'' @ c # post) \<and> \<not> is_space c)"
    by (rule iffD1 [OF re_search_url_None_iff a])
  have b: "re_search_quoted ''say hello'' = None"
    by (simp add: is_quote_def DQ_def SQ_def)
  have q: "\<not> (\<exists>pre q1 body q2 post. ''say hello'' = pre @ q1 # body @ q2 # post \<and>
          is_quote q1 \<and> is_quote q2 \<and> body \<noteq> [] \<and> (\<forall>c\<in>set body. \<not> is_quote c))"
    by (rule iffD1 [OF re_search_quoted_None_iff b])
  note inst = infer_arguments_never_raises [of "JInt 7" JNull "''say hello''"]
  have nav: "infer_arguments (JStr ''browser_navigate'') JNull ''say hello'' =
     Inr (JObj [(''url'', JStr ''https://example.com'')])"
    by (rule mp [OF conjunct1 [OF conjunct2 [OF inst]] u])
  have rd: "infer_arguments (JStr ''read_file'') JNull ''say hello'' =
     Inr (JObj [(''path'', JStr ''README.md'')])"
    by (rule mp [OF conjunct1 [OF conjunct2 [OF conjunct2 [OF inst]]] q])
  have other: "infer_arguments (JInt 7) JNull ''say hello'' = Inr (JObj [])"
    by (rule mp [OF conjunct1 [OF conjunct2 [OF conjunct2 [OF conjunct2 [OF inst]]]]]) simp
  have empty: "infer_arguments (JStr ''read_file'') JNull [] =
     Inr (JObj [(''path'', JStr ''README.md'')])"
    by (rule conjunct2 [OF conjunct2 [OF conjunct2 [OF conjunct2 [OF conjunct2 [OF inst]]]]])
  from u q nav rd empty other show ?thesis
    by (intro conjI)
qed

text \<open>
  Claim C10. The schema has no influence on the inferred arguments: for every tool name
  and task text, any two schemas (\<^verbatim>\<open>None\<close> included, which is \<open>JNull\<close>) give the same
  result.
\<close>

theorem infer_arguments_ignores_schema:
  "infer_arguments tool_name schema1 task = infer_arguments tool_name schema2 task"
  by (simp add: infer_arguments_def)

subsection \<open>The transactional flag\<close>

lemma sublist_split_at:
  assumes "c \<notin> set w"
  shows "sublist w (xs @ c # ys) \<longleftrightarrow> sublist w xs \<or> sublist w ys"
proof
  assume "sublist w (xs @ c # ys)"
  then consider "sublist w xs" | "sublist w (c # ys)"
    | w1 w2 where "w = w1 @ w2" "suffix w1 xs" "prefix w2 (c # ys)"
    by (auto simp: sublist_append)
  then show "sublist w xs \<or> sublist w ys"
  proof cases
    case 1
    then show ?thesis by simp
  next
    case 2
    with assms show ?thesis
      by (auto simp: sublist_Cons_right prefix_Cons)
  next
    case 3
    with assms show ?thesis
      by (cases w2) (auto simp: prefix_Cons)
  qed
next
  assume "sublist w xs \<or> sublist w ys"
  then show "sublist w (xs @ c # ys)"
    by (auto simp: sublist_append sublist_Cons_right)
qed

lemma flag_chars: "CHR '' '' \<notin> set ''--transactional''" "DQ \<notin> set ''--transactional''"
  by (simp_all add: DQ_def)

lemma flag_too_long: "length xs < 15 \<Longrightarrow> \<not> sublist ''--transactional'' xs"
  by (auto dest: sublist_length_le)

lemma flag_in_batch_command:
  assumes "\<not> sublist ''--transactional'' (py_format env server)"
    and "\<not> sublist ''--transactional'' (escape_quotes (json_dumps env (JArr operations)))"
  shows "sublist ''--transactional'' (batch_command env server operations transactional) \<longleftrightarrow>
           transactional"
proof (cases transactional)
  case True
  have "batch_command env server operations True =
          (''tools batch '' @ py_format env server @ '' '') @ ''--transactional'' @
          ('' --operations '' @ [DQ] @ escape_quotes (json_dumps env (JArr operations)) @ [DQ])"
    by (simp add: batch_command_def tx_flag_def)
  then have "sublist ''--transactional'' (batch_command env server operations True)"
    by (simp only: sublist_appendI)
  with True show ?thesis by simp
next
  case False
  have cmd: "batch_command env server operations False =
          ''tools'' @ CHR '' '' # (''batch'' @ CHR '' '' # (py_format env server @ CHR '' '' #
          ([] @ CHR '' '' # (''--operations'' @ CHR '' '' # ([] @ DQ #
          (escape_quotes (json_dumps env (JArr operations)) @ DQ # []))))))"
    by (simp add: batch_command_def tx_flag_def)
  have "\<not> sublist ''--transactional'' (batch_command env server operations False)"
    unfolding cmd using assms
    by (simp only: sublist_split_at [OF flag_chars(1)] sublist_split_at [OF flag_chars(2)])
      (simp add: flag_too_long)
  with False show ?thesis by simp
qed

lemma execute_task_batch_run:
  assumes "discover env task calls = (Inr discovery, calls1)"
    and "py_get discovery ''matches'' (JArr []) = Inr matches"
    and "py_truthy matches"
    and "py_get discovery ''suggested_batch'' JNull = Inr suggested"
    and "py_truthy suggested"
    and "py_getitem suggested ''server'' = Inr server"
    and "py_getitem suggested ''operations'' = Inr operations"
    and "load_schemas env server operations calls1 = (Inr schemas, calls2)"
    and "ebind (py_iter_strs operations) (\<lambda>names. build_batch_ops schemas names task) =
           Inr batch_ops"
  shows "execute_task env task calls = batch env server batch_ops False calls2"
  using execute_task_batch [OF assms(1-5)] assms(6-9) by auto

text \<open>
  Claim C7. \<open>batch\<close> runs exactly one command, whatever the flag: the command line it
  builds from its arguments. That command has \<^verbatim>\<open>--transactional\<close> between the server and
  \<^verbatim>\<open>--operations\<close> when \<open>transactional\<close> is true and nothing there when it is false; where
  the server's name and the encoded operations do not themselves contain the flag's text,
  the text occurs in the command if and only if \<open>transactional\<close> is true. Nothing is
  replayed or rolled back by the agent. A run of \<open>execute_task\<close> that reaches the batch
  call makes it with \<open>transactional = False\<close>, so its last command carries no flag.
\<close>

theorem batch_forwards_transactional:
  "snd (batch env server operations transactional calls) =
     calls @ [mcp_command env @ '' '' @ batch_command env server operations transactional] \<and>
   batch_command env server operations True =
     ''tools batch '' @ py_format env server @ '' --transactional --operations '' @ [DQ] @
     escape_quotes (json_dumps env (JArr operations)) @ [DQ] \<and>
   batch_command env server operations False =
     ''tools batch '' @ py_format env server @ ''  --operations '' @ [DQ] @
     escape_quotes (json_dumps env (JArr operations)) @ [DQ] \<and>
   (\<not> sublist ''--transactional'' (py_format env server) \<and>
    \<not> sublist ''--transactional'' (escape_quotes (json_dumps env (JArr operations))) \<longrightarrow>
      (sublist ''--transactional'' (batch_command env server operations transactional) \<longleftrightarrow>
       transactional)) \<and>
   (discover env task calls_start = (Inr discovery, calls_discover) \<and>
    py_get discovery ''matches'' (JArr []) = Inr matches \<and> py_truthy matches \<and>
    py_get discovery ''suggested_batch'' JNull = Inr suggested \<and> py_truthy suggested \<and>
    py_getitem suggested ''server'' = Inr batch_server \<and>
    py_getitem suggested ''operations'' = Inr batch_tools \<and>
    load_schemas env batch_server batch_tools calls_discover = (Inr schemas, calls_schema) \<and>
    ebind (py_iter_strs batch_tools) (\<lambda>names. build_batch_ops schemas names task) =
      Inr batch_ops \<longrightarrow>
      execute_task env task calls_start = batch env batch_server batch_ops False calls_schema \<and>
      snd (execute_task env task calls_start) =
        calls_schema @ [mcp_command env @ '' '' @ batch_command env batch_server batch_ops False])"
proof (intro conjI impI)
  show "snd (batch env server operations transactional calls) =
     calls @ [mcp_command env @ '' '' @ batch_command env server operations transactional]"
    by (rule batch_calls)
  show "batch_command env server operations True =
     ''tools batch '' @ py_format env server @ '' --transactional --operations '' @ [DQ] @
     escape_quotes (json_dumps env (JArr operations)) @ [DQ]"
    by (simp add: batch_command_def tx_flag_def)
  show "batch_command env server operations False =
     ''tools batch '' @ py_format env server @ ''  --operations '' @ [DQ] @
     escape_quotes (json_dumps env (JArr operations)) @ [DQ]"
    by (simp add: batch_command_def tx_flag_def)
next
  assume "\<not> sublist ''--transactional'' (py_format env server) \<and>
    \<not> sublist ''--transactional'' (escape_quotes (json_dumps env (JArr operations)))"
  then show "sublist ''--transactional'' (batch_command env server operations transactional) \<longleftrightarrow>
       transactional"
    by (simp add: flag_in_batch_command)
next
  assume run: "discover env task calls_start = (Inr discovery, calls_discover) \<and>
    py_get discovery ''matches'' (JArr []) = Inr matches \<and> py_truthy matches \<and>
    py_get discovery ''suggested_batch'' JNull = Inr suggested \<and> py_truthy suggested \<and>
    py_getitem suggested ''server'' = Inr batch_server \<and>
    py_getitem suggested ''operations'' = Inr batch_tools \<and>
    load_schemas env batch_server batch_tools calls_discover = (Inr schemas, calls_schema) \<and>
    ebind (py_iter_strs batch_tools) (\<lambda>names. build_batch_ops schemas names task) =
      Inr batch_ops"
  then show e: "execute_task env task calls_start = batch env batch_server batch_ops False calls_schema"
    using execute_task_batch_run [of env task calls_start discovery calls_discover matches suggested
        batch_server batch_tools schemas calls_schema batch_ops]
    by blast
  show "snd (execute_task env task calls_start) =
        calls_schema @ [mcp_command env @ '' '' @ batch_command env batch_server batch_ops False]"
    by (simp only: e batch_calls)
qed

lemma flag_not_in_browser_ops:
  "\<not> sublist ''--transactional'' (escape_quotes browser_ops_text)"
  by code_simp

lemma flag_not_in_browser: "\<not> sublist ''--transactional'' ''browser''"
  by (simp add: flag_too_long)

theorem batch_forwards_transactional_witness:
  "sublist ''--transactional''
     (batch_command (example_env [discovery_batch_text, schema_browser_text, exec_ok_text])
        (JStr ''browser'') browser_ops True) \<and>
   \<not> sublist ''--transactional''
     (batch_command (example_env [discovery_batch_text, schema_browser_text, exec_ok_text])
        (JStr ''browser'') browser_ops False) \<and>
   snd (execute_task (example_env [discovery_batch_text, schema_browser_text, exec_ok_text])
          ''take a screenshot'' []) =
     [default_command @ '' discover '' @ [DQ] @ ''take a screenshot'' @ [DQ],
      default_command @ '' tools schema browser browser_navigate browser_screenshot'',
      default_command @ '' tools batch browser  --operations '' @ [DQ] @
        escape_quotes browser_ops_text @ [DQ]]"
proof -
  let ?env = "example_env [discovery_batch_text, schema_browser_text, exec_ok_text]"
  let ?matches = "JArr [JObj [(''server'', JStr ''browser''),
                              (''tool'', JStr ''browser_navigate''),
                              (''confidence'', JFloat 0x3FECCCCCCCCCCCCD)]]"
  note inst = batch_forwards_transactional [where env = ?env and server = "JStr ''browser''"
      and operations = browser_ops and task = "''take a screenshot''" and calls_start = "[]"
      and discovery = "JObj [(''matches'', ?matches), (''suggested_batch'', browser_batch)]"
      and calls_discover = "[default_command @ '' discover '' @ [DQ] @ ''take a screenshot'' @ [DQ]]"
      and matches = ?matches and suggested = browser_batch
      and batch_server = "JStr ''browser''"
      and batch_tools = "JArr [JStr ''browser_navigate'', JStr ''browser_screenshot'']"
      and schemas = "[JObj [(''name'', JStr ''browser_screenshot'')]]"
      and calls_schema = "[default_command @ '' discover '' @ [DQ] @ ''take a screenshot'' @ [DQ],
        default_command @ '' tools schema browser browser_navigate browser_screenshot'']"
      and batch_ops = browser_ops]
  have fmt: "py_format ?env (JStr ''browser'') = ''browser''"
    by (simp add: py_format_def)
  have h1: "\<not> sublist ''--transactional'' (py_format ?env (JStr ''browser''))"
    by (simp only: fmt flag_not_in_browser not_False_eq_True)
  have h2: "\<not> sublist ''--transactional'' (escape_quotes (json_dumps ?env (JArr browser_ops)))"
    by (simp only: example_dumps_simps flag_not_in_browser_ops not_False_eq_True)
  note inst_true = inst [where transactional = True]
  note inst_false = inst [where transactional = False]
  note flag_true = conjunct1 [OF conjunct2 [OF conjunct2 [OF conjunct2 [OF inst_true]]]]
  note flag_false = conjunct1 [OF conjunct2 [OF conjunct2 [OF conjunct2 [OF inst_false]]]]
  note run = conjunct2 [OF conjunct2 [OF conjunct2 [OF conjunct2 [OF inst_false]]]]
  have a: "sublist ''--transactional'' (batch_command ?env (JStr ''browser'') browser_ops True)"
    using mp [OF flag_true conjI [OF h1 h2]] by simp
  have b: "\<not> sublist ''--transactional'' (batch_command ?env (JStr ''browser'') browser_ops False)"
    using mp [OF flag_false conjI [OF h1 h2]] by simp
  have "snd (execute_task ?env ''take a screenshot'' []) =
          [default_command @ '' discover '' @ [DQ] @ ''take a screenshot'' @ [DQ],
           default_command @ '' tools schema browser browser_navigate browser_screenshot''] @
          [mcp_command ?env @ '' '' @ batch_command ?env (JStr ''browser'') browser_ops False]"
    by (rule conjunct2 [OF mp [OF run]])
      (simp add: discover_example_batch browser_batch_def load_schemas_example_browser
        build_batch_ops_browser del: build_batch_ops.simps)
  then have c: "snd (execute_task ?env ''take a screenshot'' []) =
     [default_command @ '' discover '' @ [DQ] @ ''take a screenshot'' @ [DQ],
      default_command @ '' tools schema browser browser_navigate browser_screenshot'',
      default_command @ '' tools batch browser  --operations '' @ [DQ] @
        escape_quotes browser_ops_text @ [DQ]]"
    by (simp add: batch_command_def tx_flag_def fmt example_dumps_simps example_env_simps)
  from a b c show ?thesis
    by (intro conjI)
qed

subsection \<open>A failed execution\<close>

lemma execute_task_example_fs:
  "execute_task (example_env [discovery_fs_text, schema_one_text, x]) notes_task [] =
     exec_tool (example_env [discovery_fs_text, schema_one_text, x])
       (JStr ''fs'') (JStr ''read_file'') notes_args
       [default_command @ '' discover '' @ [DQ] @ notes_task @ [DQ],
        default_command @ '' tools schema fs read_file'']"
  using execute_task_single [OF discover_example_fs [of "[schema_one_text, x]" notes_task],
      where suggested = JNull and top_match = fs_match and rest = "[]"
        and confidence = "JFloat 0x3FECCCCCCCCCCCCD" and server = "JStr ''fs''"
        and tool = "JStr ''read_file''"]
  by (simp add: fs_match_def load_schemas_example_one infer_arguments_notes)

lemma exec_tool_example_unreachable:
  "exec_tool (example_env [d, s, exec_unreachable_text]) (JStr ''fs'') (JStr ''read_file'')
       notes_args [c1, c2] =
     (Inl (RuntimeError ''Execution failed: server unreachable''),
      [c1, c2, default_command @ '' tools exec fs read_file --args '' @ [DQ] @
                 escape_quotes notes_args_text @ [DQ]])"
  by (simp add: phase_defs exec_command_def iobind_def exec_mcp_example example_loads_simps
      example_dumps_simps exec_unreachable_def)

lemma default_command_update:
  "mcp_command env = default_command \<Longrightarrow> env\<lparr>mcp_command := default_command\<rparr> = env"
  by (cases env) simp

text \<open>
  Claim C4, as amended. Take an agent with the default command, as \<open>main\<close> builds it, and a
  run that reaches the Execution call. If the backend's answer to that call parses to
  \<^verbatim>\<open>{"success": false, "error": {"message": m}}\<close>, the run fails with a \<^verbatim>\<open>RuntimeError\<close>
  (the agent's error for a phase the backend reports as failed) whose text is
  \<^verbatim>\<open>Execution failed: \<close> followed by \<open>m\<close> unchanged, and the process exits with status 1.
  For \<open>m\<close> = \<^verbatim>\<open>server unreachable\<close> the text is \<^verbatim>\<open>Execution failed: server unreachable\<close>.
\<close>

theorem execution_failure_propagates:
  assumes "mcp_command env = default_command"
    and "execute_task env task calls = exec_tool env server tool args calls_schema"
    and "subprocess_run env calls_schema
           (mcp_command env @ '' '' @ exec_command env server tool args) = Completed rc out err"
    and "json_loads env out =
           Loaded (JObj [(''success'', JBool False),
                       (''error'', JObj [(''message'', JStr message)])])"
  shows "fst (execute_task env task calls) =
           Inl (RuntimeError (''Execution failed: '' @ message)) \<and>
         fst (main env [prog, task] calls) = 1"
proof -
  have "fst (exec_tool env server tool args calls_schema) =
          Inl (RuntimeError (''Execution failed: '' @ message))"
    using assms(3,4)
    by (simp add: exec_tool_def iobind_def exec_mcp_def check_success_def py_format_def)
  with assms(2) have run: "fst (execute_task env task calls) =
          Inl (RuntimeError (''Execution failed: '' @ message))"
    by simp
  then have "fst (main env [prog, task] calls) = 1"
    using assms(1)
    by (auto simp: main_def default_command_update split: prod.splits sum.splits)
  with run show ?thesis by simp
qed

theorem execution_failure_propagates_witness:
  "fst (execute_task (example_env [discovery_fs_text, schema_one_text, exec_unreachable_text])
          notes_task []) =
     Inl (RuntimeError ''Execution failed: server unreachable'') \<and>
   fst (main (example_env [discovery_fs_text, schema_one_text, exec_unreachable_text])
          [''python-agent.py'', notes_task] []) = 1"
  using execution_failure_propagates
    [where env = "example_env [discovery_fs_text, schema_one_text, exec_unreachable_text]"
       and task = notes_task and calls = "[]" and server = "JStr ''fs''"
       and tool = "JStr ''read_file''" and args = notes_args
       and calls_schema = "[default_command @ '' discover '' @ [DQ] @ notes_task @ [DQ],
                            default_command @ '' tools schema fs read_file'']"
       and rc = 0 and out = exec_unreachable_text and err = "[]"
       and message = "''server unreachable''" and prog = "''python-agent.py''"]
  by (simp add: example_env_simps execute_task_example_fs example_loads_simps table_loads_def
      exec_unreachable_def)

text \<open>Claim C4 as it was stated fails in that run: the text of the error is not the
  backend's message alone, the phase's label stands before it.\<close>

theorem execution_failure_message_counterexample:
  "fst (execute_task (example_env [discovery_fs_text, schema_one_text, exec_unreachable_text])
          notes_task []) =
     Inl (RuntimeError ''Execution failed: server unreachable'') \<and>
   fst (execute_task (example_env [discovery_fs_text, schema_one_text, exec_unreachable_text])
          notes_task []) \<noteq>
     Inl (RuntimeError ''server unreachable'')"
  by (simp add: execute_task_example_fs exec_tool_example_unreachable)

subsection \<open>Reading a file, end to end\<close>

text \<open>
  Claim C9. The task is \<^verbatim>\<open>read the file 'notes.txt'\<close>. Discovery returns the one match
  \<^verbatim>\<open>{server: "fs", tool: "read_file", confidence: 0.9}\<close> and no suggested batch, and the
  Schema phase returns one schema. Then the inferred arguments are \<^verbatim>\<open>{path: "notes.txt"}\<close>,
  the run ends in \<open>exec_tool\<close> on \<^verbatim>\<open>fs\<close>, \<^verbatim>\<open>read_file\<close> and these arguments, and it has run
  three commands: discover, the schema request for \<^verbatim>\<open>read_file\<close> on \<^verbatim>\<open>fs\<close>, and one
  execution.
\<close>

theorem read_notes_scenario:
  assumes "discover env notes_task calls = (Inr discovery, calls_discover)"
    and "py_get discovery ''matches'' (JArr []) = Inr (JArr [fs_match])"
    and "py_get discovery ''suggested_batch'' JNull = Inr suggested"
    and "\<not> py_truthy suggested"
    and "load_schemas env (JStr ''fs'') (JArr [JStr ''read_file'']) calls_discover =
           (Inr [schema], calls_schema)"
  shows "infer_arguments (JStr ''read_file'') schema notes_task =
           Inr (JObj [(''path'', JStr ''notes.txt'')]) \<and>
         execute_task env notes_task calls =
           exec_tool env (JStr ''fs'') (JStr ''read_file'') (JObj [(''path'', JStr ''notes.txt'')])
             calls_schema \<and>
         snd (execute_task env notes_task calls) =
           calls @
           [mcp_command env @ '' discover '' @ [DQ] @ notes_task @ [DQ],
            mcp_command env @ '' tools schema fs read_file'',
            mcp_command env @ '' tools exec fs read_file --args '' @ [DQ] @
              escape_quotes (json_dumps env (JObj [(''path'', JStr ''notes.txt'')])) @ [DQ]]"
proof -
  have args: "infer_arguments (JStr ''read_file'') schema notes_task =
                Inr (JObj [(''path'', JStr ''notes.txt'')])"
    using infer_arguments_notes [of schema] by (simp add: notes_args_def)
  have run: "execute_task env notes_task calls =
               exec_tool env (JStr ''fs'') (JStr ''read_file'')
                 (JObj [(''path'', JStr ''notes.txt'')]) calls_schema"
    using execute_task_single [OF assms(1-4), where confidence = "JFloat 0x3FECCCCCCCCCCCCD"
        and server = "JStr ''fs''" and tool = "JStr ''read_file''"] assms(5) args
    by (simp add: fs_match_def)
  have d: "calls_discover = calls @ [mcp_command env @ '' discover '' @ [DQ] @ notes_task @ [DQ]]"
    using discover_calls [of env notes_task calls] assms(1) by simp
  have s: "calls_schema = calls_discover @ [mcp_command env @ '' tools schema fs read_file'']"
    using load_schemas_calls [OF assms(5)] by (auto simp: py_format_def)
  have "snd (execute_task env notes_task calls) =
          calls_schema @ [mcp_command env @ '' '' @
            exec_command env (JStr ''fs'') (JStr ''read_file'') (JObj [(''path'', JStr ''notes.txt'')])]"
    by (simp only: run exec_tool_calls)
  then have log: "snd (execute_task env notes_task calls) =
           calls @
           [mcp_command env @ '' discover '' @ [DQ] @ notes_task @ [DQ],
            mcp_command env @ '' tools schema fs read_file'',
            mcp_command env @ '' tools exec fs read_file --args '' @ [DQ] @
              escape_quotes (json_dumps env (JObj [(''path'', JStr ''notes.txt'')])) @ [DQ]]"
    by (simp add: d s exec_command_def py_format_def)
  from args run log show ?thesis
    by (intro conjI)
qed

theorem read_notes_scenario_witness:
  "infer_arguments (JStr ''read_file'') read_file_schema notes_task =
     Inr (JObj [(''path'', JStr ''notes.txt'')]) \<and>
   execute_task (example_env [discovery_fs_text, schema_one_text, exec_ok_text]) notes_task [] =
     (Inr (JStr ''remember the milk''),
      [default_command @ '' discover '' @ [DQ] @ notes_task @ [DQ],
       default_command @ '' tools schema fs read_file'',
       default_command @ '' tools exec fs read_file --args '' @ [DQ] @
         escape_quotes notes_args_text @ [DQ]])"
proof -
  let ?env = "example_env [discovery_fs_text, schema_one_text, exec_ok_text]"
  note inst = read_notes_scenario [OF discover_example_fs [of "[schema_one_text, exec_ok_text]"],
      where suggested = JNull and schema = read_file_schema
        and calls_schema = "[default_command @ '' discover '' @ [DQ] @ notes_task @ [DQ],
                             default_command @ '' tools schema fs read_file'']"]
  have all: "infer_arguments (JStr ''read_file'') read_file_schema notes_task =
           Inr (JObj [(''path'', JStr ''notes.txt'')]) \<and>
         execute_task ?env notes_task [] =
           exec_tool ?env (JStr ''fs'') (JStr ''read_file'') (JObj [(''path'', JStr ''notes.txt'')])
             [default_command @ '' discover '' @ [DQ] @ notes_task @ [DQ],
              default_command @ '' tools schema fs read_file''] \<and>
         snd (execute_task ?env notes_task []) =
           [] @
           [mcp_command ?env @ '' discover '' @ [DQ] @ notes_task @ [DQ],
            mcp_command ?env @ '' tools schema fs read_file'',
            mcp_command ?env @ '' tools exec fs read_file --args '' @ [DQ] @
              escape_quotes (json_dumps ?env (JObj [(''path'', JStr ''notes.txt'')])) @ [DQ]]"
    by (rule inst) (simp_all add: load_schemas_example_one)
  have ok: "exec_tool ?env (JStr ''fs'') (JStr ''read_file'') notes_args
       [default_command @ '' discover '' @ [DQ] @ notes_task @ [DQ],
        default_command @ '' tools schema fs read_file''] =
     (Inr (JStr ''remember the milk''),
      [default_command @ '' discover '' @ [DQ] @ notes_task @ [DQ],
       default_command @ '' tools schema fs read_file'',
       default_command @ '' tools exec fs read_file --args '' @ [DQ] @
         escape_quotes notes_args_text @ [DQ]])"
    by (simp add: phase_defs exec_command_def iobind_def exec_mcp_example example_loads_simps
        example_dumps_simps exec_ok_def)
  from all ok show ?thesis
    by (simp add: notes_args_def)
qed

subsection \<open>Further properties of the phases\<close>

text \<open>
  The exit status of \<open>main\<close>: 0 when there is a task on the command line and the run
  returns a result, 1 when the task is missing or the run raises.
\<close>

theorem main_exit_status:
  "fst (main env argv calls) =
     (if 2 \<le> length argv \<and>
         (\<exists>result. fst (execute_task (env\<lparr>mcp_command := default_command\<rparr>) (argv ! 1) calls) =
                     Inr result)
      then 0 else 1)"
  by (auto simp: main_def split: prod.splits sum.splits)

text \<open>
  The batch scenario, end to end. Discovery suggests the batch of \<^verbatim>\<open>browser_navigate\<close> and
  \<^verbatim>\<open>browser_screenshot\<close> on the server \<^verbatim>\<open>browser\<close>; one schema command asks for both
  tools; every schema returned has a name. Then the run ends in one \<open>batch\<close> call with two
  operations in the order given and \<open>transactional = False\<close>, and it has run three
  commands.
\<close>

lemma find_schema_named:
  assumes "\<forall>s\<in>set schemas. \<exists>n. py_getitem s ''name'' = Inr n"
  shows "\<exists>r. find_schema schemas tool_name = Inr r"
  using assms by (induction schemas) auto

theorem browser_batch_scenario:
  assumes "discover env task calls = (Inr discovery, calls_discover)"
    and "py_get discovery ''matches'' (JArr []) = Inr matches" and "py_truthy matches"
    and "py_get discovery ''suggested_batch'' JNull = Inr browser_batch"
    and "load_schemas env (JStr ''browser'')
           (JArr [JStr ''browser_navigate'', JStr ''browser_screenshot'']) calls_discover =
         (Inr schemas, calls_schema)"
    and "\<forall>s\<in>set schemas. \<exists>n. py_getitem s ''name'' = Inr n"
  shows "\<exists>url. execute_task env task calls =
           batch env (JStr ''browser'')
             [JObj [(''tool'', JStr ''browser_navigate''), (''args'', JObj [(''url'', JStr url)])],
              JObj [(''tool'', JStr ''browser_screenshot''),
                    (''args'', JObj [(''filename'', JStr ''screenshot.png''),
                                     (''fullPage'', JBool True)])]]
             False calls_schema \<and>
         snd (execute_task env task calls) =
           calls @
           [mcp_command env @ '' discover '' @ [DQ] @ task @ [DQ],
            mcp_command env @ '' tools schema browser browser_navigate browser_screenshot'',
            mcp_command env @ '' tools batch browser  --operations '' @ [DQ] @
              escape_quotes (json_dumps env (JArr
                [JObj [(''tool'', JStr ''browser_navigate''), (''args'', JObj [(''url'', JStr url)])],
                 JObj [(''tool'', JStr ''browser_screenshot''),
                       (''args'', JObj [(''filename'', JStr ''screenshot.png''),
                                        (''fullPage'', JBool True)])]])) @ [DQ]]"
proof -
  obtain a where a: "infer_arguments (JStr ''browser_navigate'') JNull task = Inr (JObj a)"
    using infer_arguments_total by blast
  then obtain url where url: "\<And>schema. infer_arguments (JStr ''browser_navigate'') schema task =
      Inr (JObj [(''url'', JStr url)])"
    by (auto simp: infer_arguments_def ebind_eq_Inr)
  have shot: "\<And>schema. infer_arguments (JStr ''browser_screenshot'') schema task =
      Inr (JObj [(''filename'', JStr ''screenshot.png''), (''fullPage'', JBool True)])"
    by (simp add: infer_arguments_def)
  obtain s1 where s1: "find_schema schemas ''browser_navigate'' = Inr s1"
    using find_schema_named [OF assms(6)] by blast
  obtain s2 where s2: "find_schema schemas ''browser_screenshot'' = Inr s2"
    using find_schema_named [OF assms(6)] by blast
  let ?ops = "[JObj [(''tool'', JStr ''browser_navigate''), (''args'', JObj [(''url'', JStr url)])],
              JObj [(''tool'', JStr ''browser_screenshot''),
                    (''args'', JObj [(''filename'', JStr ''screenshot.png''),
                                     (''fullPage'', JBool True)])]]"
  have ops: "build_batch_ops schemas [''browser_navigate'', ''browser_screenshot''] task = Inr ?ops"
    by (simp add: s1 s2 url shot)
  have run: "execute_task env task calls = batch env (JStr ''browser'') ?ops False calls_schema"
    by (rule execute_task_batch_run [OF assms(1-4) _ _ _ assms(5)])
      (simp_all add: browser_batch_def ops del: build_batch_ops.simps)
  have d: "calls_discover = calls @ [mcp_command env @ '' discover '' @ [DQ] @ task @ [DQ]]"
    using discover_calls [of env task calls] assms(1) by simp
  have s: "calls_schema = calls_discover @
             [mcp_command env @ '' tools schema browser browser_navigate browser_screenshot'']"
    using load_schemas_calls [OF assms(5)] by (auto simp: py_format_def)
  have "snd (execute_task env task calls) =
          calls_schema @ [mcp_command env @ '' '' @ batch_command env (JStr ''browser'') ?ops False]"
    by (simp only: run batch_calls)
  then have log: "snd (execute_task env task calls) =
           calls @
           [mcp_command env @ '' discover '' @ [DQ] @ task @ [DQ],
            mcp_command env @ '' tools schema browser browser_navigate browser_screenshot'',
            mcp_command env @ '' tools batch browser  --operations '' @ [DQ] @
              escape_quotes (json_dumps env (JArr ?ops)) @ [DQ]]"
    by (simp add: d s batch_command_def tx_flag_def py_format_def)
  from run log show ?thesis
    by blast
qed

theorem browser_batch_scenario_witness:
  "\<exists>url. execute_task (example_env [discovery_batch_text, schema_browser_text, exec_ok_text])
            ''take a screenshot'' [] =
           batch (example_env [discovery_batch_text, schema_browser_text, exec_ok_text])
             (JStr ''browser'')
             [JObj [(''tool'', JStr ''browser_navigate''), (''args'', JObj [(''url'', JStr url)])],
              JObj [(''tool'', JStr ''browser_screenshot''),
                    (''args'', JObj [(''filename'', JStr ''screenshot.png''),
                                     (''fullPage'', JBool True)])]]
             False
             [default_command @ '' discover '' @ [DQ] @ ''take a screenshot'' @ [DQ],
              default_command @ '' tools schema browser browser_navigate browser_screenshot'']"
proof -
  let ?env = "example_env [discovery_batch_text, schema_browser_text, exec_ok_text]"
  have "\<exists>url. execute_task ?env ''take a screenshot'' [] =
           batch ?env (JStr ''browser'')
             [JObj [(''tool'', JStr ''browser_navigate''), (''args'', JObj [(''url'', JStr url)])],
              JObj [(''tool'', JStr ''browser_screenshot''),
                    (''args'', JObj [(''filename'', JStr ''screenshot.png''),
                                     (''fullPage'', JBool True)])]]
             False
             [default_command @ '' discover '' @ [DQ] @ ''take a screenshot'' @ [DQ],
              default_command @ '' tools schema browser browser_navigate browser_screenshot''] \<and>
         snd (execute_task ?env ''take a screenshot'' []) =
           [] @
           [mcp_command ?env @ '' discover '' @ [DQ] @ ''take a screenshot'' @ [DQ],
            mcp_command ?env @ '' tools schema browser browser_navigate browser_screenshot'',
            mcp_command ?env @ '' tools batch browser  --operations '' @ [DQ] @
              escape_quotes (json_dumps ?env (JArr
                [JObj [(''tool'', JStr ''browser_navigate''), (''args'', JObj [(''url'', JStr url)])],
                 JObj [(''tool'', JStr ''browser_screenshot''),
                       (''args'', JObj [(''filename'', JStr ''screenshot.png''),
                                        (''fullPage'', JBool True)])]])) @ [DQ]]"
    by (rule browser_batch_scenario [OF discover_example_batch
          [of "[schema_browser_text, exec_ok_text]"] _ _ _ load_schemas_example_browser])
      (simp, simp, simp, simp)
  then show ?thesis by blast
qed

subsection \<open>The order of the commands\<close>

lemma iobind_log:
  assumes "\<And>calls. \<exists>cs. snd (m calls) = calls @ cs \<and> length cs \<le> a"
    and "\<And>x calls. \<exists>cs. snd (f x calls) = calls @ cs \<and> length cs \<le> b"
  shows "\<exists>cs. snd (iobind m f calls) = calls @ cs \<and> length cs \<le> a + b"
proof -
  from assms(1) obtain cs where m: "snd (m calls) = calls @ cs" and l: "length cs \<le> a"
    by blast
  show ?thesis
  proof (cases "fst (m calls)")
    case (Inl e)
    with m have "iobind m f calls = (Inl e, calls @ cs)"
      by (cases "m calls") (simp add: iobind_def)
    with l show ?thesis by simp
  next
    case (Inr x)
    with m have i: "iobind m f calls = f x (calls @ cs)"
      by (cases "m calls") (simp add: iobind_def)
    from assms(2) obtain ds where "snd (f x (calls @ cs)) = (calls @ cs) @ ds" and "length ds \<le> b"
      by blast
    with i l have "snd (iobind m f calls) = calls @ (cs @ ds) \<and> length (cs @ ds) \<le> a + b"
      by simp
    then show ?thesis by blast
  qed
qed

lemma lift_log: "\<exists>cs. snd (lift m calls) = calls @ cs \<and> length cs \<le> 0"
  by simp

lemma iobind_lift_log:
  assumes "\<And>x calls. \<exists>cs. snd (f x calls) = calls @ cs \<and> length cs \<le> b"
  shows "\<exists>cs. snd (iobind (lift m) f calls) = calls @ cs \<and> length cs \<le> b"
  using iobind_log [of "lift m" 0 f b calls] assms by simp

lemma exec_tool_log:
  "\<exists>cs. snd (exec_tool env server tool args calls) = calls @ cs \<and> length cs \<le> 1"
  by (simp add: exec_tool_calls)

lemma batch_log:
  "\<exists>cs. snd (batch env server operations transactional calls) = calls @ cs \<and> length cs \<le> 1"
  by (simp add: batch_calls)

lemma load_schemas_log:
  "\<exists>cs. snd (load_schemas env server tools calls) = calls @ cs \<and> length cs \<le> 1"
  unfolding load_schemas_def
  by (intro iobind_lift_log) (simp add: snd_iobind_lift snd_exec_mcp)

lemma batch_branch_log:
  "\<exists>cs. snd (batch_branch env task suggested calls) = calls @ cs \<and> length cs \<le> 2"
  unfolding batch_branch_def
proof (intro iobind_lift_log)
  fix server operations calls
  have "\<exists>cs. snd (iobind (load_schemas env server operations)
                 (\<lambda>schemas. iobind (lift (ebind (py_iter_strs operations)
                     (\<lambda>names. build_batch_ops schemas names task)))
                   (\<lambda>batch_ops. batch env server batch_ops False)) calls) = calls @ cs \<and>
             length cs \<le> 1 + 1"
  proof (rule iobind_log)
    show "\<exists>cs. snd (load_schemas env server operations calls) = calls @ cs \<and> length cs \<le> 1"
      for calls
      by (rule load_schemas_log)
    show "\<exists>cs. snd (iobind (lift (ebind (py_iter_strs operations)
                     (\<lambda>names. build_batch_ops schemas names task)))
                   (\<lambda>batch_ops. batch env server batch_ops False) calls) = calls @ cs \<and>
               length cs \<le> 1"
      for schemas calls
      by (rule iobind_lift_log) (rule batch_log)
  qed
  then show "\<exists>cs. snd (iobind (load_schemas env server operations)
                 (\<lambda>schemas. iobind (lift (ebind (py_iter_strs operations)
                     (\<lambda>names. build_batch_ops schemas names task)))
                   (\<lambda>batch_ops. batch env server batch_ops False)) calls) = calls @ cs \<and>
             length cs \<le> 2"
    by (simp only: one_add_one)
qed

lemma single_branch_log:
  "\<exists>cs. snd (single_branch env task matches calls) = calls @ cs \<and> length cs \<le> 2"
  unfolding single_branch_def
proof (intro iobind_lift_log)
  fix server tool calls
  have "\<exists>cs. snd (iobind (load_schemas env server (JArr [tool]))
                 (\<lambda>schemas. iobind (lift (case schemas of [] \<Rightarrow> Inl IndexError
                                            | schema # _ \<Rightarrow> Inr schema))
                   (\<lambda>schema. iobind (lift (infer_arguments tool schema task))
                     (\<lambda>args. exec_tool env server tool args))) calls) = calls @ cs \<and>
             length cs \<le> 1 + 1"
  proof (rule iobind_log)
    show "\<exists>cs. snd (load_schemas env server (JArr [tool]) calls) = calls @ cs \<and> length cs \<le> 1"
      for calls
      by (rule load_schemas_log)
    show "\<exists>cs. snd (iobind (lift (case schemas of [] \<Rightarrow> Inl IndexError
                                            | schema # _ \<Rightarrow> Inr schema))
                   (\<lambda>schema. iobind (lift (infer_arguments tool schema task))
                     (\<lambda>args. exec_tool env server tool args)) calls) = calls @ cs \<and>
               length cs \<le> 1"
      for schemas calls
      by (intro iobind_lift_log) (rule exec_tool_log)
  qed
  then show "\<exists>cs. snd (iobind (load_schemas env server (JArr [tool]))
                 (\<lambda>schemas. iobind (lift (case schemas of [] \<Rightarrow> Inl IndexError
                                            | schema # _ \<Rightarrow> Inr schema))
                   (\<lambda>schema. iobind (lift (infer_arguments tool schema task))
                     (\<lambda>args. exec_tool env server tool args))) calls) = calls @ cs \<and>
             length cs \<le> 2"
    by (simp only: one_add_one)
qed

text \<open>
  Every run starts with the discover command and runs at most two commands after it: at
  most one schema command and at most one execution.
\<close>

theorem run_commands_in_order:
  "\<exists>rest. snd (execute_task env task calls) =
            calls @ (mcp_command env @ '' discover '' @ [DQ] @ task @ [DQ]) # rest \<and>
          length rest \<le> 2"
proof (cases "fst (discover env task calls)")
  case (Inl e)
  then have "execute_task env task calls = (Inl e, snd (discover env task calls))"
    by (cases "discover env task calls") (simp add: execute_task_def iobind_def)
  then show ?thesis
    by (simp add: discover_calls)
next
  case (Inr discovery)
  let ?c1 = "calls @ [mcp_command env @ '' discover '' @ [DQ] @ task @ [DQ]]"
  let ?rest = "\<lambda>discovery. iobind (lift (py_get discovery ''matches'' (JArr []))) (\<lambda>matches.
     if \<not> py_truthy matches then
       lift (Inl (RuntimeError ''No matching tools found for the task''))
     else
       iobind (lift (py_get discovery ''suggested_batch'' JNull)) (\<lambda>suggested_batch.
       if py_truthy suggested_batch then batch_branch env task suggested_batch
       else single_branch env task matches))"
  from Inr have d: "discover env task calls = (Inr discovery, ?c1)"
    using discover_calls [of env task calls] by (cases "discover env task calls") simp
  then have e: "execute_task env task calls = ?rest discovery ?c1"
    by (simp add: execute_task_def iobind_def)
  have "\<exists>cs. snd (?rest discovery ?c1) = ?c1 @ cs \<and> length cs \<le> 2"
  proof (intro iobind_lift_log)
    fix matches calls
    show "\<exists>cs. snd ((if \<not> py_truthy matches then
       lift (Inl (RuntimeError ''No matching tools found for the task''))
     else
       iobind (lift (py_get discovery ''suggested_batch'' JNull)) (\<lambda>suggested_batch.
       if py_truthy suggested_batch then batch_branch env task suggested_batch
       else single_branch env task matches)) calls) = calls @ cs \<and> length cs \<le> 2"
    proof (cases "py_truthy matches")
      case False
      then show ?thesis by simp
    next
      case True
      have "\<exists>cs. snd (iobind (lift (py_get discovery ''suggested_batch'' JNull))
               (\<lambda>suggested_batch.
                  if py_truthy suggested_batch then batch_branch env task suggested_batch
                  else single_branch env task matches) calls) = calls @ cs \<and> length cs \<le> 2"
      proof (intro iobind_lift_log)
        fix suggested calls
        show "\<exists>cs. snd ((if py_truthy suggested then batch_branch env task suggested
                          else single_branch env task matches) calls) = calls @ cs \<and>
                    length cs \<le> 2"
          using batch_branch_log single_branch_log by simp
      qed
      with True show ?thesis by simp
    qed
  qed
  with e show ?thesis by auto
qed

text \<open>A failure of the Discovery phase is the failure of the run, with the same error, and
  no other command is run.\<close>

theorem discovery_failure_propagates:
  assumes "discover env task calls = (Inl e, calls_discover)"
  shows "execute_task env task calls =
           (Inl e, calls @ [mcp_command env @ '' discover '' @ [DQ] @ task @ [DQ]])"
  using assms discover_calls [of env task calls]
  by (simp add: execute_task_def iobind_def)

theorem discovery_failure_propagates_witness:
  "discover (example_env [exec_unreachable_text]) ''water the plants'' [] =
     (Inl (RuntimeError ''Discovery failed: server unreachable''),
      [default_command @ '' discover '' @ [DQ] @ ''water the plants'' @ [DQ]]) \<and>
   execute_task (example_env [exec_unreachable_text]) ''water the plants'' [] =
     (Inl (RuntimeError ''Discovery failed: server unreachable''),
      [default_command @ '' discover '' @ [DQ] @ ''water the plants'' @ [DQ]])"
proof -
  have d: "discover (example_env [exec_unreachable_text]) ''water the plants'' [] =
     (Inl (RuntimeError ''Discovery failed: server unreachable''),
      [default_command @ '' discover '' @ [DQ] @ ''water the plants'' @ [DQ]])"
    by (simp add: phase_defs iobind_def exec_mcp_example example_loads_simps exec_unreachable_def)
  from discovery_failure_propagates [OF d] d show ?thesis
    by (simp add: example_env_simps)
qed

end
